theory Spec2Isabelle
  imports Main "HOL-Library.Char_ord" "HOL-Library.List_Lexorder" "HOL-Library.Multiset"
begin

section \<open>Calendar days\<close>

text \<open>
  The rule engine handles dates only through the JavaScript \<^verbatim>\<open>Date\<close> object: it
  builds one with \<^verbatim>\<open>new Date(year, month, day)\<close>, steps it with
  \<^verbatim>\<open>setDate(getDate() + 1)\<close>, compares two of them with \<^verbatim>\<open><=\<close>, and turns one
  into the key \<^verbatim>\<open>YYYY-MM-DD\<close> with \<^verbatim>\<open>formatDate\<close>, which reads its local year, month
  and day. A \<^verbatim>\<open>Date\<close> that is built from a year, a month and a day and formatted at
  once is modelled by its day number: the count of days since 1970-01-01, as
  ECMAScript's \<^verbatim>\<open>Day(t)\<close>. \<^verbatim>\<open>formatDate\<close> maps different days to different keys, so
  the schedule, the holiday calendar and the availability maps, which the source keys
  by the formatted date, are keyed here by the day itself. Where a \<^verbatim>\<open>Date\<close> is kept
  and stepped, or is built from a value of the caller, its time of day and the time
  zone of the runtime count as well; they are modelled in the next section.

  \<open>DayFromYear\<close> and \<open>newDate\<close> are ECMAScript's \<^verbatim>\<open>DayFromYear\<close> and \<^verbatim>\<open>MakeDay\<close>: a
  month outside 0..11 carries into the year and a day outside the month carries into
  the neighbouring months, which is what \<^verbatim>\<open>new Date(year, month, 0)\<close> and
  \<^verbatim>\<open>new Date(year, month, 1 - maxDays)\<close> rely on. The years 0 to 99, to which the
  \<^verbatim>\<open>Date\<close> constructor adds 1900, and the years whose days a \<^verbatim>\<open>Date\<close> cannot hold
  are outside the model.
\<close>

type_synonym date = int

definition DayFromYear :: "int \<Rightarrow> int" where
  "DayFromYear y =
     365 * (y - 1970) + (y - 1969) div 4 - (y - 1901) div 100 + (y - 1601) div 400"

definition isLeapYear :: "int \<Rightarrow> bool" where
  "isLeapYear y = (y mod 4 = 0 \<and> (if y mod 100 = 0 then y mod 400 = 0 else True))"

definition daysBeforeMonth :: "int \<Rightarrow> int \<Rightarrow> int" where
  "daysBeforeMonth y mn =
     [0, 31, 59, 90, 120, 151, 181, 212, 243, 273, 304, 334] ! nat mn
       + (if isLeapYear y \<and> 2 \<le> mn then 1 else 0)"

definition firstOfMonth :: "int \<Rightarrow> int \<Rightarrow> date" where
  "firstOfMonth y m =
     (let ym = y + m div 12; mn = m mod 12 in DayFromYear ym + daysBeforeMonth ym mn)"

definition newDate :: "int \<Rightarrow> int \<Rightarrow> int \<Rightarrow> date" where
  "newDate y m d = firstOfMonth y m + d - 1"

text \<open>
  \<^verbatim>\<open>new Date(year, month + 1, 0).getDate()\<close>: the day of the month of the last day of
  the month, which is the number of days from the first of the month to the first of
  the next.
\<close>

definition daysInMonth :: "int \<Rightarrow> int \<Rightarrow> int" where
  "daysInMonth y m = newDate y (m + 1) 0 - newDate y m 1 + 1"

text \<open>
  \<^verbatim>\<open>d.getFullYear() === year && d.getMonth() === month\<close>, for the year and the month
  index (0..11) that \<^verbatim>\<open>validate\<close> reads off the current date: the days from the first
  of that month to the last.
\<close>

definition inMonth :: "int \<Rightarrow> int \<Rightarrow> date \<Rightarrow> bool" where
  "inMonth y m d = (newDate y m 1 \<le> d \<and> d \<le> newDate y (m + 1) 0)"

section \<open>Local time\<close>

text \<open>
  A \<^verbatim>\<open>Date\<close> holds an instant and shows it in the time zone of the runtime. The zone
  enters the model through two functions. \<open>midnightGap zone d\<close> is the time, in
  milliseconds, that the clocks of the zone skip at the start of the local day \<open>d\<close>:
  0 on a day that has a local midnight, and 3600000 on a day on which daylight saving
  time begins at 00:00 and the first local time is 01:00. \<open>utcOffset zone d\<close> is local
  time minus UTC, in milliseconds, at 00:00 UTC of day \<open>d\<close>; it lies between minus
  and plus one day. (A zone that skips a whole calendar day, or skips time across a
  midnight, is outside the model.)
\<close>

record timeZone =
  midnightGap :: "date \<Rightarrow> int"
  utcOffset :: "date \<Rightarrow> int"

definition msPerDay :: int where
  "msPerDay = 86400000"

text \<open>
  A local time is a local day and the milliseconds since 00:00 of that day.
  \<^verbatim>\<open>new Date(year, month, day)\<close> asks for 00:00 of the day, and
  \<^verbatim>\<open>d.setDate(d.getDate() + 1)\<close> for the time of day of \<open>d\<close> on the next day; a local
  time that the zone skips is read with the offset before the clock change, so it
  comes out later by the length of the gap. \<^verbatim>\<open>d <= endDate\<close> compares the two
  instants, which for two local times of one zone is the order of day and time of day.
\<close>

type_synonym localTime = "date \<times> int"

definition atLocalTime :: "timeZone \<Rightarrow> date \<Rightarrow> int \<Rightarrow> localTime" where
  "atLocalTime zone day t =
     (day, if t < midnightGap zone day then t + midnightGap zone day else t)"

definition localMidnight :: "timeZone \<Rightarrow> date \<Rightarrow> localTime" where
  "localMidnight zone day = atLocalTime zone day 0"

definition setDateNext :: "timeZone \<Rightarrow> localTime \<Rightarrow> localTime" where
  "setDateNext zone d = atLocalTime zone (fst d + 1) (snd d)"

definition notAfter :: "localTime \<Rightarrow> localTime \<Rightarrow> bool" where
  "notAfter d endDate = (fst d < fst endDate \<or> (fst d = fst endDate \<and> snd d \<le> snd endDate))"

text \<open>
  A \<^verbatim>\<open>Date\<close> holds the instants within 100,000,000 days of 1970-01-01 UTC; a date
  built for a day further away is an invalid date, and every comparison with it is
  false. (On the two days at the very ends of the range the zone's offset decides; the
  model takes them as invalid.)
\<close>

definition validDate :: "date \<Rightarrow> bool" where
  "validDate d = (\<bar>d\<bar> < 100000000)"

text \<open>
  \<^verbatim>\<open>new Date(value)\<close> for a value of the caller. A \<^verbatim>\<open>Date\<close>, a time value, and a
  string with a time of day and no zone designator are all instants of some local day.
  A string of the form \<^verbatim>\<open>YYYY-MM-DD\<close> is read as 00:00 UTC of that day, which west of
  UTC is an evening of the local day before.
\<close>

datatype date_argument = LocalDate date | DateOnlyString date

definition localDay :: "timeZone \<Rightarrow> date_argument \<Rightarrow> date" where
  "localDay zone v =
     (case v of
        LocalDate d \<Rightarrow> d
      | DateOnlyString d \<Rightarrow> d + utcOffset zone d div msPerDay)"

section \<open>Data model\<close>

record assignment =
  employee :: string
  shift :: string

type_synonym scheduleData = "date \<rightharpoonup> assignment list"

text \<open>
  The value of an employee rule goes through \<^verbatim>\<open>parseInt(rule.value, 10)\<close>; it is a
  number (an integer count), a string, or missing.
\<close>

datatype jsvalue = VNum int | VStr string | VUndefined

text \<open>
  The value of a shift rule is only ever the right operand of \<^verbatim>\<open>staffCount < rule.value\<close>,
  which converts it to a Number first. The model stores that Number: an integer, or
  \<open>NaN\<close> when the value is not numeric.
\<close>

datatype jsnumber = Finite int | NaN

record employee_rule =
  er_type :: string
  er_employee :: string
  er_value :: jsvalue

record shift_rule =
  sr_type :: string
  sr_shift :: string
  sr_value :: jsnumber

record schedulingConditions =
  employeeRules :: "employee_rule list option"
  shiftRules :: "shift_rule list option"

record rule_context =
  scheduleData :: scheduleData
  year :: int
  month :: int
  shiftTypes :: "string \<rightharpoonup> string"
  employeeAvailability :: "(string \<rightharpoonup> (date \<rightharpoonup> bool)) option"
  holidayDates :: "(date \<rightharpoonup> bool) option"

text \<open>
  The reporting sink. \<^verbatim>\<open>highlightConflict(calendarGrid, date, reason)\<close> marks a cell of
  the calendar and \<^verbatim>\<open>alert\<close> shows the summary; the model records the calls, in order.
  A reason is the template string of the source, kept as its template and the values
  it interpolates.
\<close>

datatype reason =
    ConsecutiveDays string nat int
  | Turnaround24h string date date
  | DayAfterNight string
  | ShiftGap string string string
  | StaffShortage "string option" nat jsnumber
  | Imbalance string nat nat nat int
  | Unavailable string
  | Duplicate string "string list"

text \<open>
  \<^verbatim>\<open>totalConflicts\<close> starts as the number 0 and grows by \<^verbatim>\<open>+=\<close>. While every operand
  is a number it is a count; \<^verbatim>\<open>+=\<close> with a string or an object makes it a string, and
  with \<^verbatim>\<open>undefined\<close> it becomes \<^verbatim>\<open>NaN\<close>.
\<close>

datatype total = TNum nat | TNaN | TStr string

datatype event =
    ClearHighlights
  | Highlight date reason
  | AlertNoConflicts
  | AlertConflicts total

section \<open>Helpers\<close>

definition isHoliday :: "date \<Rightarrow> (date \<rightharpoonup> bool) option \<Rightarrow> bool" where
  "isHoliday dateStr hmap =
     (case hmap of None \<Rightarrow> False | Some h \<Rightarrow> h dateStr = Some True)"

text \<open>\<^verbatim>\<open>scheduleData[dateStr] || []\<close>\<close>

definition shiftsOn :: "scheduleData \<Rightarrow> date \<Rightarrow> assignment list" where
  "shiftsOn sd d = (case sd d of None \<Rightarrow> [] | Some xs \<Rightarrow> xs)"

text \<open>\<^verbatim>\<open>(scheduleData[dateStr] || []).some(s => s.employee === employee && s.shift !== 'off')\<close>\<close>

definition isWorking :: "scheduleData \<Rightarrow> string \<Rightarrow> date \<Rightarrow> bool" where
  "isWorking sd e d = list_ex (\<lambda>s. employee s = e \<and> shift s \<noteq> ''off'') (shiftsOn sd d)"

text \<open>\<^verbatim>\<open>Array.prototype.indexOf\<close>: the first position of the element, or -1.\<close>

fun indexOf :: "'a list \<Rightarrow> 'a \<Rightarrow> int" where
  "indexOf [] x = - 1"
| "indexOf (y # ys) x =
     (if y = x then 0 else (let i = indexOf ys x in if i = - 1 then - 1 else i + 1))"

text \<open>The remainder operator \<^verbatim>\<open>%\<close> of JavaScript: the sign of the dividend.\<close>

definition js_rem :: "int \<Rightarrow> int \<Rightarrow> int" where
  "js_rem a b = sgn a * (\<bar>a\<bar> mod \<bar>b\<bar>)"

section \<open>Shift adjacency\<close>

definition WEEKDAY_SHIFT_ORDER :: "string list" where
  "WEEKDAY_SHIFT_ORDER = [''day'', ''evening'', ''night'']"

definition WEEKEND_SHIFT_ORDER :: "string list" where
  "WEEKEND_SHIFT_ORDER = [''weekend-day'', ''weekend-night'']"

definition getShiftPosition :: "string \<Rightarrow> bool \<Rightarrow> int" where
  "getShiftPosition shiftType isHol =
     indexOf (if isHol then WEEKEND_SHIFT_ORDER else WEEKDAY_SHIFT_ORDER) shiftType"

definition hasEnoughShiftGap :: "string \<Rightarrow> string \<Rightarrow> bool \<Rightarrow> bool \<Rightarrow> bool" where
  "hasEnoughShiftGap shift1 shift2 isHoliday1 isHoliday2 =
     (if isHoliday1 \<noteq> isHoliday2 then True
      else if shift1 = ''off'' \<or> shift2 = ''off'' then True
      else if isHoliday1 then True
      else
        (let pos1 = getShiftPosition shift1 False;
             pos2 = getShiftPosition shift2 False
         in if pos1 = - 1 \<or> pos2 = - 1 then True
            else
              (let steps = js_rem (pos2 - pos1 + int (length WEEKDAY_SHIFT_ORDER))
                                  (int (length WEEKDAY_SHIFT_ORDER))
               in steps > 1)))"

section \<open>Numeric rule values\<close>

text \<open>
  \<^verbatim>\<open>parseInt(string, 10)\<close>: leading white space is skipped, one sign is read, and the
  longest run of decimal digits that follows is the number; with no digit the result is
  \<^verbatim>\<open>NaN\<close>, here \<open>None\<close>. A number is first written out in decimal and an
  undefined value as the word \<^verbatim>\<open>undefined\<close>. The result is the exact integer; it is
  the result of the source for integers below \<open>2^53\<close> in size, which a Number holds
  exactly and writes out digit by digit.
\<close>

definition isWhiteSpace :: "char \<Rightarrow> bool" where
  "isWhiteSpace c = (of_char c \<in> set [9, 10, 11, 12, 13, 32, 160 :: nat])"

definition isDigit :: "char \<Rightarrow> bool" where
  "isDigit c = (48 \<le> (of_char c :: nat) \<and> (of_char c :: nat) \<le> 57)"

definition digitsValue :: "string \<Rightarrow> int" where
  "digitsValue ds = foldl (\<lambda>a c. 10 * a + (of_char c - 48)) 0 ds"

definition parseIntString :: "string \<Rightarrow> int option" where
  "parseIntString s =
     (let s1 = dropWhile isWhiteSpace s;
          neg = (s1 \<noteq> [] \<and> hd s1 = CHR ''-'');
          s2 = (if s1 \<noteq> [] \<and> (hd s1 = CHR ''-'' \<or> hd s1 = CHR ''+'') then tl s1 else s1);
          ds = takeWhile isDigit s2
      in if ds = [] then None
         else Some (if neg then - digitsValue ds else digitsValue ds))"

definition parseInt :: "jsvalue \<Rightarrow> int option" where
  "parseInt v =
     (case v of VNum n \<Rightarrow> Some n | VStr s \<Rightarrow> parseIntString s | VUndefined \<Rightarrow> None)"

text \<open>\<^verbatim>\<open>staffCount < rule.value\<close>: a comparison with \<^verbatim>\<open>NaN\<close> is false.\<close>

definition lessThanValue :: "nat \<Rightarrow> jsnumber \<Rightarrow> bool" where
  "lessThanValue n v = (case v of Finite k \<Rightarrow> int n < k | NaN \<Rightarrow> False)"

section \<open>Rule handlers\<close>

text \<open>
  Every handler returns its conflict count; the model pairs it with the highlight calls
  the handler made. A loop \<^verbatim>\<open>for (let day = 1; day <= daysInMonth; day++)\<close> over the
  days of the month, which builds the date of each day afresh, is a fold over the list
  of its days, with the loop's variables as the state.
\<close>

type_synonym outcome = "nat \<times> event list"

subsection \<open>Maximum consecutive work days\<close>

text \<open>The state of the loop: \<^verbatim>\<open>consecutiveCount\<close>, \<^verbatim>\<open>conflictCount\<close> and the calls made.\<close>

definition maxConsecutiveStep ::
    "rule_context \<Rightarrow> string \<Rightarrow> int \<Rightarrow> nat \<times> outcome \<Rightarrow> date \<Rightarrow> nat \<times> outcome" where
  "maxConsecutiveStep ctx e maxDays st d =
     (case st of (consecutiveCount, conflictCount, log) \<Rightarrow>
        if isWorking (scheduleData ctx) e d then
          (let c = Suc consecutiveCount in
             if int c > maxDays \<and> inMonth (year ctx) (month ctx) d
             then (c, Suc conflictCount, log @ [Highlight d (ConsecutiveDays e c maxDays)])
             else (c, conflictCount, log))
        else (0, conflictCount, log))"

text \<open>
  The loop \<^verbatim>\<open>for (let d = new Date(startDate); d <= endDate; d.setDate(d.getDate() + 1))\<close>
  keeps one \<^verbatim>\<open>Date\<close> and steps it, so \<open>d\<close> is a local time. Each round moves \<open>d\<close> to
  the next day, and the loop ends, at the latest, when \<open>d\<close> has passed the day of
  \<open>endDate\<close>.
\<close>

function scanDays ::
    "timeZone \<Rightarrow> ('s \<Rightarrow> date \<Rightarrow> 's) \<Rightarrow> localTime \<Rightarrow> localTime \<Rightarrow> 's \<Rightarrow> 's" where
  "scanDays zone body d endDate st =
     (if notAfter d endDate then scanDays zone body (setDateNext zone d) endDate (body st (fst d))
      else st)"
  by pat_completeness auto
termination
  by (relation "measure (\<lambda>(zone, body, d, endDate, st). nat (fst endDate + 1 - fst d))")
     (auto simp: notAfter_def setDateNext_def atLocalTime_def)

declare scanDays.simps [simp del]

text \<open>
  With a value that \<^verbatim>\<open>parseInt\<close> reads as \<^verbatim>\<open>NaN\<close>, \<^verbatim>\<open>new Date(year, month, 1 - maxDays)\<close>
  is an invalid date, the loop test \<^verbatim>\<open>d <= endDate\<close> is false at once and the body
  never runs; the same holds when one of the two dates is too far away to be a date.
\<close>

definition checkMaxConsecutiveWorkDays ::
    "timeZone \<Rightarrow> rule_context \<Rightarrow> employee_rule \<Rightarrow> outcome" where
  "checkMaxConsecutiveWorkDays zone ctx rule =
     (case parseInt (er_value rule) of
        None \<Rightarrow> (0, [])
      | Some maxDays \<Rightarrow>
          (let startDate = newDate (year ctx) (month ctx) (1 - maxDays);
               endDate = newDate (year ctx) (month ctx + 1) 0
           in if validDate startDate \<and> validDate endDate
              then snd (scanDays zone (maxConsecutiveStep ctx (er_employee rule) maxDays)
                          (localMidnight zone startDate) (localMidnight zone endDate) (0, 0, []))
              else (0, [])))"

subsection \<open>No 24-hour turnaround\<close>

definition no24HourStep :: "rule_context \<Rightarrow> string \<Rightarrow> outcome \<Rightarrow> int \<Rightarrow> outcome" where
  "no24HourStep ctx e st day =
     (case st of (conflictCount, log) \<Rightarrow>
        (let currentDateStr = newDate (year ctx) (month ctx) day;
             prevDateStr = newDate (year ctx) (month ctx) (day - 1);
             todayShifts = shiftsOn (scheduleData ctx) currentDateStr;
             prevDayShifts = shiftsOn (scheduleData ctx) prevDateStr;
             currentIsHoliday = isHoliday currentDateStr (holidayDates ctx);
             prevIsHoliday = isHoliday prevDateStr (holidayDates ctx);
             nightShifts = (if prevIsHoliday then [''weekend-night''] else [''night'']);
             dayShifts = (if currentIsHoliday then [''weekend-day''] else [''day'']);
             hadNightShift =
               list_ex (\<lambda>s. employee s = e \<and> shift s \<in> set nightShifts) prevDayShifts;
             hasDayShift =
               list_ex (\<lambda>s. employee s = e \<and> shift s \<in> set dayShifts) todayShifts
         in if hadNightShift \<and> hasDayShift
            then (Suc conflictCount,
                  log @ [Highlight currentDateStr (Turnaround24h e prevDateStr currentDateStr),
                         Highlight prevDateStr (DayAfterNight e)])
            else (conflictCount, log)))"

definition checkNo24HourShift :: "rule_context \<Rightarrow> employee_rule \<Rightarrow> outcome" where
  "checkNo24HourShift ctx rule =
     foldl (no24HourStep ctx (er_employee rule)) (0, [])
       [1..daysInMonth (year ctx) (month ctx)]"

subsection \<open>No direct shift transition\<close>

definition noDirectTransitionStep :: "rule_context \<Rightarrow> string \<Rightarrow> outcome \<Rightarrow> int \<Rightarrow> outcome" where
  "noDirectTransitionStep ctx e st day =
     (case st of (conflictCount, log) \<Rightarrow>
        (let currentDateStr = newDate (year ctx) (month ctx) day;
             nextDateStr = newDate (year ctx) (month ctx) (day + 1);
             todayShifts = shiftsOn (scheduleData ctx) currentDateStr;
             tomorrowShifts = shiftsOn (scheduleData ctx) nextDateStr;
             currentIsHoliday = isHoliday currentDateStr (holidayDates ctx);
             nextIsHoliday = isHoliday nextDateStr (holidayDates ctx);
             todayShift = find (\<lambda>s. employee s = e \<and> shift s \<noteq> ''off'') todayShifts;
             tomorrowShift = find (\<lambda>s. employee s = e \<and> shift s \<noteq> ''off'') tomorrowShifts
         in case (todayShift, tomorrowShift) of
              (Some t1, Some t2) \<Rightarrow>
                if \<not> hasEnoughShiftGap (shift t1) (shift t2) currentIsHoliday nextIsHoliday
                then (Suc conflictCount,
                      log @ [Highlight currentDateStr (ShiftGap e (shift t1) (shift t2)),
                             Highlight nextDateStr (ShiftGap e (shift t1) (shift t2))])
                else (conflictCount, log)
            | _ \<Rightarrow> (conflictCount, log)))"

definition checkNoDirectShiftTransition :: "rule_context \<Rightarrow> employee_rule \<Rightarrow> outcome" where
  "checkNoDirectShiftTransition ctx rule =
     foldl (noDirectTransitionStep ctx (er_employee rule)) (0, [])
       [1..daysInMonth (year ctx) (month ctx)]"

subsection \<open>Minimum staff\<close>

definition minStaffStep :: "rule_context \<Rightarrow> shift_rule \<Rightarrow> outcome \<Rightarrow> int \<Rightarrow> outcome" where
  "minStaffStep ctx rule st day =
     (case st of (conflictCount, log) \<Rightarrow>
        (let dateStr = newDate (year ctx) (month ctx) day;
             staffCount =
               length (filter (\<lambda>s. shift s = sr_shift rule) (shiftsOn (scheduleData ctx) dateStr))
         in if lessThanValue staffCount (sr_value rule)
            then (Suc conflictCount,
                  log @ [Highlight dateStr
                           (StaffShortage (shiftTypes ctx (sr_shift rule)) staffCount (sr_value rule))])
            else (conflictCount, log)))"

definition checkMinStaff :: "rule_context \<Rightarrow> shift_rule \<Rightarrow> outcome" where
  "checkMinStaff ctx rule =
     foldl (minStaffStep ctx rule) (0, []) [1..daysInMonth (year ctx) (month ctx)]"

subsection \<open>Balance of day and night shifts\<close>

text \<open>\<^verbatim>\<open>parseInt(rule.value, 10) || 2\<close>: \<^verbatim>\<open>NaN\<close> and 0 are both falsy.\<close>

definition maxDifferenceOf :: "jsvalue \<Rightarrow> int" where
  "maxDifferenceOf v = (case parseInt v of None \<Rightarrow> 2 | Some n \<Rightarrow> if n = 0 then 2 else n)"

definition balanceCountShift :: "string \<Rightarrow> nat \<times> nat \<Rightarrow> assignment \<Rightarrow> nat \<times> nat" where
  "balanceCountShift e st s =
     (case st of (dayShiftCount, nightShiftCount) \<Rightarrow>
        if employee s = e then
          ((if shift s = ''day'' \<or> shift s = ''weekend-day''
            then Suc dayShiftCount else dayShiftCount),
           (if shift s = ''night'' \<or> shift s = ''weekend-night''
            then Suc nightShiftCount else nightShiftCount))
        else (dayShiftCount, nightShiftCount))"

definition balanceCountDay :: "rule_context \<Rightarrow> string \<Rightarrow> nat \<times> nat \<Rightarrow> int \<Rightarrow> nat \<times> nat" where
  "balanceCountDay ctx e st day =
     foldl (balanceCountShift e) st
       (shiftsOn (scheduleData ctx) (newDate (year ctx) (month ctx) day))"

definition hasDominantShift :: "rule_context \<Rightarrow> string \<Rightarrow> string list \<Rightarrow> int \<Rightarrow> bool" where
  "hasDominantShift ctx e dominantShift day =
     list_ex (\<lambda>s. employee s = e \<and> shift s \<in> set dominantShift)
       (shiftsOn (scheduleData ctx) (newDate (year ctx) (month ctx) day))"

text \<open>
  The second loop runs from the last day of the month down to the first and leaves at
  the first day that has a shift of the dominant class: a search in the reversed list
  of days.
\<close>

definition checkShiftBalance :: "rule_context \<Rightarrow> employee_rule \<Rightarrow> outcome" where
  "checkShiftBalance ctx rule =
     (let e = er_employee rule;
          maxDifference = maxDifferenceOf (er_value rule);
          days = [1..daysInMonth (year ctx) (month ctx)];
          counts = foldl (balanceCountDay ctx e) (0, 0) days;
          dayShiftCount = fst counts;
          nightShiftCount = snd counts;
          difference = nat \<bar>int dayShiftCount - int nightShiftCount\<bar>
      in if int difference > maxDifference \<and> (dayShiftCount > 0 \<or> nightShiftCount > 0)
         then
           (let dominantShift =
                  (if dayShiftCount > nightShiftCount then [''day'', ''weekend-day'']
                   else [''night'', ''weekend-night'']);
                lastShiftDate = find (hasDominantShift ctx e dominantShift) (rev days)
            in (1, case lastShiftDate of
                     None \<Rightarrow> []
                   | Some day \<Rightarrow>
                       [Highlight (newDate (year ctx) (month ctx) day)
                          (Imbalance e dayShiftCount nightShiftCount difference maxDifference)]))
         else (0, []))"

subsection \<open>System rules\<close>

text \<open>\<^verbatim>\<open>employeeAvailability[shift.employee]?.[dateStr] === false\<close>\<close>

definition availabilityShift ::
    "(string \<rightharpoonup> (date \<rightharpoonup> bool)) \<Rightarrow> date \<Rightarrow> outcome \<Rightarrow> assignment \<Rightarrow> outcome" where
  "availabilityShift avail dateStr st s =
     (case st of (conflictCount, log) \<Rightarrow>
        if shift s \<noteq> ''off''
           \<and> (case avail (employee s) of None \<Rightarrow> False | Some m \<Rightarrow> m dateStr = Some False)
        then (Suc conflictCount, log @ [Highlight dateStr (Unavailable (employee s))])
        else (conflictCount, log))"

definition checkEmployeeAvailability :: "rule_context \<Rightarrow> outcome" where
  "checkEmployeeAvailability ctx =
     (case employeeAvailability ctx of
        None \<Rightarrow> (0, [])
      | Some avail \<Rightarrow>
          foldl (\<lambda>st day.
                   (let dateStr = newDate (year ctx) (month ctx) day
                    in foldl (availabilityShift avail dateStr) st
                         (shiftsOn (scheduleData ctx) dateStr)))
            (0, []) [1..daysInMonth (year ctx) (month ctx)])"

text \<open>
  Every object made by an object literal inherits the members of \<^verbatim>\<open>Object.prototype\<close>,
  and \<^verbatim>\<open>object[name]\<close> finds them as it finds the object's own properties. The list
  gives, for each of them, what the call \<^verbatim>\<open>registry[name]({...context, rule})\<close> does:
  \<^verbatim>\<open>constructor\<close> is \<^verbatim>\<open>Object\<close> and returns its argument, \<^verbatim>\<open>valueOf\<close> returns the
  registry, \<^verbatim>\<open>toString\<close> and \<^verbatim>\<open>toLocaleString\<close> return the string \<^verbatim>\<open>[object Object]\<close>,
  the three tests answer \<^verbatim>\<open>false\<close> for the key \<^verbatim>\<open>[object Object]\<close> and for an object
  the registry is no prototype of, the two lookups find no accessor and return
  \<^verbatim>\<open>undefined\<close>, the two definers throw a \<^verbatim>\<open>TypeError\<close> for a missing function, and
  \<^verbatim>\<open>__proto__\<close> is the prototype object, which is not a function, so that the call
  throws a \<^verbatim>\<open>TypeError\<close>.
\<close>

datatype error = TypeError

datatype returned = RNumber nat | RObject | RString string | RBoolean bool | RUndefined

datatype member_call = Returns returned | Throws error

definition objectPrototype :: "(string \<times> member_call) list" where
  "objectPrototype =
     [(''constructor'', Returns RObject),
      (''__defineGetter__'', Throws TypeError),
      (''__defineSetter__'', Throws TypeError),
      (''hasOwnProperty'', Returns (RBoolean False)),
      (''__lookupGetter__'', Returns RUndefined),
      (''__lookupSetter__'', Returns RUndefined),
      (''isPrototypeOf'', Returns (RBoolean False)),
      (''propertyIsEnumerable'', Returns (RBoolean False)),
      (''toString'', Returns (RString ''[object Object]'')),
      (''valueOf'', Returns RObject),
      (''__proto__'', Throws TypeError),
      (''toLocaleString'', Returns (RString ''[object Object]''))]"

definition objectPrototypeNames :: "string list" where
  "objectPrototypeNames = map fst objectPrototype"

text \<open>
  A run that may throw: \<open>Inl\<close> holds the error and the calls made to the reporting
  sink before it, \<open>Inr\<close> the result.
\<close>

type_synonym 'a completion = "(error \<times> event list) + 'a"

text \<open>
  \<^verbatim>\<open>employeeShifts\<close>, the object that groups the shifts of a day by employee, as the list
  of its entries in the order the employees were first met. For an employee whose name
  is an inherited member, \<^verbatim>\<open>employeeShifts[shift.employee]\<close> is that member, no array is
  stored, and \<^verbatim>\<open>.push\<close> is not a function: the handler throws.
\<close>

fun pushShift :: "string \<Rightarrow> string \<Rightarrow> (string \<times> string list) list \<Rightarrow> (string \<times> string list) list" where
  "pushShift e s [] = [(e, [s])]"
| "pushShift e s ((k, v) # rest) =
     (if k = e then (k, v @ [s]) # rest else (k, v) # pushShift e s rest)"

definition collectShift ::
    "error + (string \<times> string list) list \<Rightarrow> assignment \<Rightarrow> error + (string \<times> string list) list" where
  "collectShift acc s =
     (case acc of
        Inl err \<Rightarrow> Inl err
      | Inr employeeShifts \<Rightarrow>
          if shift s \<noteq> ''off'' then
            (if employee s \<in> set objectPrototypeNames then Inl TypeError
             else Inr (pushShift (employee s) (shift s) employeeShifts))
          else Inr employeeShifts)"

definition collectShifts :: "assignment list \<Rightarrow> error + (string \<times> string list) list" where
  "collectShifts shifts = foldl collectShift (Inr []) shifts"

text \<open>
  \<^verbatim>\<open>Object.entries\<close> lists the keys that are array indices first, in ascending order,
  and the other keys after them in the order they were added. An array index is the
  decimal form, with no leading zero, of an integer below \<open>2^32 - 1\<close>.
\<close>

definition arrayIndex :: "string \<Rightarrow> nat option" where
  "arrayIndex k =
     (if k \<noteq> [] \<and> list_all isDigit k \<and> (k = ''0'' \<or> hd k \<noteq> CHR ''0'')
         \<and> digitsValue k < 2 ^ 32 - 1
      then Some (nat (digitsValue k)) else None)"

definition objectEntries :: "(string \<times> 'v) list \<Rightarrow> (string \<times> 'v) list" where
  "objectEntries entries =
     sort_key (\<lambda>entry. the (arrayIndex (fst entry)))
       (filter (\<lambda>entry. arrayIndex (fst entry) \<noteq> None) entries)
     @ filter (\<lambda>entry. arrayIndex (fst entry) = None) entries"

definition duplicateEntry :: "date \<Rightarrow> outcome \<Rightarrow> string \<times> string list \<Rightarrow> outcome" where
  "duplicateEntry dateStr st entry =
     (case st of (conflictCount, log) \<Rightarrow>
        (case entry of (e, empShifts) \<Rightarrow>
           if length empShifts > 1
           then (Suc conflictCount, log @ [Highlight dateStr (Duplicate e empShifts)])
           else (conflictCount, log)))"

definition duplicateDay :: "rule_context \<Rightarrow> outcome completion \<Rightarrow> int \<Rightarrow> outcome completion" where
  "duplicateDay ctx acc day =
     (case acc of
        Inl err \<Rightarrow> Inl err
      | Inr st \<Rightarrow>
          (let dateStr = newDate (year ctx) (month ctx) day
           in case collectShifts (shiftsOn (scheduleData ctx) dateStr) of
                Inl err \<Rightarrow> Inl (err, snd st)
              | Inr employeeShifts \<Rightarrow>
                  Inr (foldl (duplicateEntry dateStr) st (objectEntries employeeShifts))))"

definition checkDuplicateAssignment :: "rule_context \<Rightarrow> outcome completion" where
  "checkDuplicateAssignment ctx =
     foldl (duplicateDay ctx) (Inr (0, [])) [1..daysInMonth (year ctx) (month ctx)]"

section \<open>Rule registries and validation\<close>

text \<open>
  The three registries are object literals that map a rule-type tag to its handler.
  \<^verbatim>\<open>registry[rule.type]\<close> finds the handler written in the literal under that tag, or
  else the member of \<^verbatim>\<open>Object.prototype\<close> of that name, or else nothing. The handler of
  the consecutive-days rule runs in the time zone of the runtime.
\<close>

datatype 'h property = Own 'h | Inherited member_call | Missing

definition getProperty :: "(string \<times> 'h) list \<Rightarrow> string \<Rightarrow> 'h property" where
  "getProperty registry tag =
     (case map_of registry tag of
        Some handler \<Rightarrow> Own handler
      | None \<Rightarrow>
          (case map_of objectPrototype tag of
             Some member \<Rightarrow> Inherited member
           | None \<Rightarrow> Missing))"

definition employeeRuleHandlers ::
    "timeZone \<Rightarrow> (string \<times> (rule_context \<Rightarrow> employee_rule \<Rightarrow> outcome)) list" where
  "employeeRuleHandlers zone =
     [(''maxConsecutiveWorkDays'', checkMaxConsecutiveWorkDays zone),
      (''no24HourShift'', checkNo24HourShift),
      (''noDirectShiftTransition'', checkNoDirectShiftTransition),
      (''balanceShifts'', checkShiftBalance)]"

definition shiftRuleHandlers :: "(string \<times> (rule_context \<Rightarrow> shift_rule \<Rightarrow> outcome)) list" where
  "shiftRuleHandlers = [(''minStaff'', checkMinStaff)]"

definition systemRuleHandlers :: "(string \<times> (rule_context \<Rightarrow> outcome completion)) list" where
  "systemRuleHandlers =
     [(''employeeAvailability'', \<lambda>ctx. Inr (checkEmployeeAvailability ctx)),
      (''duplicateAssignment'', checkDuplicateAssignment)]"

text \<open>
  The parameters of \<^verbatim>\<open>validate\<close>. \<open>p_year\<close> and \<open>p_month\<close> are
  \<^verbatim>\<open>currentDate.getFullYear()\<close> and \<^verbatim>\<open>currentDate.getMonth()\<close>.
\<close>

record validate_params =
  p_year :: int
  p_month :: int
  p_scheduleData :: scheduleData
  p_schedulingConditions :: schedulingConditions
  p_shiftTypes :: "string \<rightharpoonup> string"
  p_employeeAvailability :: "(string \<rightharpoonup> (date \<rightharpoonup> bool)) option"
  p_holidayDates :: "(date \<rightharpoonup> bool) option"

record validation =
  totalConflicts :: total
  isValid :: bool

text \<open>
  \<^verbatim>\<open>totalConflicts += value\<close>. If the total or the value (an object by way of its
  \<^verbatim>\<open>toString\<close>) is a string, the two are joined as strings, a number in its decimal
  form; otherwise they are added as numbers, \<^verbatim>\<open>false\<close> as 0, \<^verbatim>\<open>true\<close> as 1 and
  \<^verbatim>\<open>undefined\<close> as \<^verbatim>\<open>NaN\<close>.
\<close>

fun decimal :: "nat \<Rightarrow> string" where
  "decimal n =
     (if n < 10 then [''0123456789'' ! n]
      else decimal (n div 10) @ [''0123456789'' ! (n mod 10)])"

declare decimal.simps [simp del]

definition returnedToString :: "returned \<Rightarrow> string" where
  "returnedToString v =
     (case v of
        RNumber n \<Rightarrow> decimal n
      | RObject \<Rightarrow> ''[object Object]''
      | RString s \<Rightarrow> s
      | RBoolean b \<Rightarrow> (if b then ''true'' else ''false'')
      | RUndefined \<Rightarrow> ''undefined'')"

definition isStringLike :: "returned \<Rightarrow> bool" where
  "isStringLike v = (case v of RObject \<Rightarrow> True | RString s \<Rightarrow> True | _ \<Rightarrow> False)"

definition addTotal :: "total \<Rightarrow> returned \<Rightarrow> total" where
  "addTotal t v =
     (case t of
        TStr s \<Rightarrow> TStr (s @ returnedToString v)
      | TNum n \<Rightarrow>
          (if isStringLike v then TStr (decimal n @ returnedToString v)
           else case v of
                  RNumber k \<Rightarrow> TNum (n + k)
                | RBoolean b \<Rightarrow> TNum (n + (if b then 1 else 0))
                | _ \<Rightarrow> TNaN)
      | TNaN \<Rightarrow>
          (if isStringLike v then TStr (''NaN'' @ returnedToString v) else TNaN))"

type_synonym run = "total \<times> event list"

definition addOutcome :: "run \<Rightarrow> outcome \<Rightarrow> run" where
  "addOutcome st r = (addTotal (fst st) (RNumber (fst r)), snd st @ snd r)"

text \<open>
  \<^verbatim>\<open>if (registry[rule.type]) totalConflicts += registry[rule.type]({ ...context, rule })\<close>:
  a member that is found is truthy, whether the registry's own or inherited, and is
  called.
\<close>

definition callProperty :: "run \<Rightarrow> 'h property \<Rightarrow> ('h \<Rightarrow> outcome) \<Rightarrow> run completion" where
  "callProperty st member call =
     (case member of
        Missing \<Rightarrow> Inr st
      | Own handler \<Rightarrow> Inr (addOutcome st (call handler))
      | Inherited (Returns v) \<Rightarrow> Inr (addTotal (fst st) v, snd st)
      | Inherited (Throws err) \<Rightarrow> Inl (err, snd st))"

definition runEmployeeRule ::
    "timeZone \<Rightarrow> rule_context \<Rightarrow> run completion \<Rightarrow> employee_rule \<Rightarrow> run completion" where
  "runEmployeeRule zone ctx acc rule =
     (case acc of
        Inl err \<Rightarrow> Inl err
      | Inr st \<Rightarrow>
          callProperty st (getProperty (employeeRuleHandlers zone) (er_type rule))
            (\<lambda>handler. handler ctx rule))"

definition runShiftRule :: "rule_context \<Rightarrow> run completion \<Rightarrow> shift_rule \<Rightarrow> run completion" where
  "runShiftRule ctx acc rule =
     (case acc of
        Inl err \<Rightarrow> Inl err
      | Inr st \<Rightarrow>
          callProperty st (getProperty shiftRuleHandlers (sr_type rule))
            (\<lambda>handler. handler ctx rule))"

text \<open>
  \<^verbatim>\<open>Object.values(systemRuleHandlers).forEach(handler => totalConflicts += handler(context))\<close>
\<close>

definition runSystemRule ::
    "rule_context \<Rightarrow> run completion \<Rightarrow> (rule_context \<Rightarrow> outcome completion) \<Rightarrow> run completion" where
  "runSystemRule ctx acc handler =
     (case acc of
        Inl err \<Rightarrow> Inl err
      | Inr st \<Rightarrow>
          (case handler ctx of
             Inl (err, log) \<Rightarrow> Inl (err, snd st @ log)
           | Inr r \<Rightarrow> Inr (addOutcome st r)))"

definition makeContext :: "validate_params \<Rightarrow> rule_context" where
  "makeContext p =
     \<lparr>scheduleData = p_scheduleData p, year = p_year p, month = p_month p,
      shiftTypes = p_shiftTypes p, employeeAvailability = p_employeeAvailability p,
      holidayDates = p_holidayDates p\<rparr>"

definition validate :: "timeZone \<Rightarrow> validate_params \<Rightarrow> (validation \<times> event list) completion" where
  "validate zone p =
     (let ctx = makeContext p;
          st0 = Inr (TNum 0, [ClearHighlights]);
          st1 = (case employeeRules (p_schedulingConditions p) of
                   None \<Rightarrow> st0
                 | Some rules \<Rightarrow> foldl (runEmployeeRule zone ctx) st0 rules);
          st2 = (case shiftRules (p_schedulingConditions p) of
                   None \<Rightarrow> st1
                 | Some rules \<Rightarrow> foldl (runShiftRule ctx) st1 rules);
          st3 = foldl (runSystemRule ctx) st2 (map snd systemRuleHandlers)
      in case st3 of
           Inl err \<Rightarrow> Inl err
         | Inr (conflicts, log) \<Rightarrow>
             Inr (\<lparr>totalConflicts = conflicts, isValid = (conflicts = TNum 0)\<rparr>,
                  log @ [if conflicts = TNum 0 then AlertNoConflicts
                         else AlertConflicts conflicts]))"

section \<open>Employee selection\<close>

text \<open>
  The statistics of an employee are counts kept by the caller. \<^verbatim>\<open>employeeStats\<close> is an
  object keyed by employee; it is the list of its entries, read with \<open>map_of\<close>, so that
  \<^verbatim>\<open>Object.values\<close> can enumerate it.
\<close>

record employeeStat =
  totalShifts :: int
  dayShifts :: int
  nightShifts :: int

type_synonym employeeStats = "(string \<times> employeeStat) list"

text \<open>\<^verbatim>\<open>employeeStats[a]?.totalShifts || 0\<close> and \<^verbatim>\<open>employeeStats[a]?.nightShifts || 0\<close>\<close>

definition totalShiftsOf :: "employeeStats \<Rightarrow> string \<Rightarrow> int" where
  "totalShiftsOf stats a = (case map_of stats a of None \<Rightarrow> 0 | Some st \<Rightarrow> totalShifts st)"

definition nightShiftsOf :: "employeeStats \<Rightarrow> string \<Rightarrow> int" where
  "nightShiftsOf stats a = (case map_of stats a of None \<Rightarrow> 0 | Some st \<Rightarrow> nightShifts st)"

text \<open>
  \<^verbatim>\<open>Array.prototype.sort(compareFn)\<close> is stable, and each comparison function of the
  source orders the employees by a key, so the sorted array is the one an insertion sort
  makes: an element goes before the first element it does not compare greater than.
\<close>

fun insertBy :: "('a \<Rightarrow> 'a \<Rightarrow> int) \<Rightarrow> 'a \<Rightarrow> 'a list \<Rightarrow> 'a list" where
  "insertBy cmp x [] = [x]"
| "insertBy cmp x (y # ys) = (if cmp x y \<le> 0 then x # y # ys else y # insertBy cmp x ys)"

definition sortBy :: "('a \<Rightarrow> 'a \<Rightarrow> int) \<Rightarrow> 'a list \<Rightarrow> 'a list" where
  "sortBy cmp xs = foldr (insertBy cmp) xs []"

text \<open>\<^verbatim>\<open>a || b\<close> on two numbers.\<close>

definition js_or :: "int \<Rightarrow> int \<Rightarrow> int" where
  "js_or a b = (if a \<noteq> 0 then a else b)"

text \<open>
  The \<^verbatim>\<open>date\<close> argument is used by the \<^verbatim>\<open>rotate\<close> strategy alone, as
  \<^verbatim>\<open>if (date) { dayIndex = new Date(date).getDate() ... }\<close>: it is missing, or a date with
  its day of the month, or a value \<^verbatim>\<open>Date\<close> cannot read, whose day is \<^verbatim>\<open>NaN\<close>.
\<close>

datatype rotation_date = NoDate | DayOfMonth nat | InvalidDate

text \<open>\<^verbatim>\<open>[...xs.slice(k), ...xs.slice(0, k)]\<close>\<close>

definition rotateBy :: "nat \<Rightarrow> 'a list \<Rightarrow> 'a list" where
  "rotateBy k xs = drop k xs @ take k xs"

text \<open>
  The \<^verbatim>\<open>rotate\<close> case: \<^verbatim>\<open>sort()\<close> orders the names as strings. With a day index of
  \<^verbatim>\<open>NaN\<close>, \<^verbatim>\<open>slice(NaN)\<close> is the whole array and \<^verbatim>\<open>slice(0, NaN)\<close> is empty.
\<close>

definition rotateEmployees :: "rotation_date \<Rightarrow> string list \<Rightarrow> string list" where
  "rotateEmployees date xs =
     (let sortedEmployees = sort xs
      in case date of
           NoDate \<Rightarrow> sortedEmployees
         | DayOfMonth dayIndex \<Rightarrow> rotateBy (dayIndex mod length sortedEmployees) sortedEmployees
         | InvalidDate \<Rightarrow> sortedEmployees)"

subsection \<open>The current revision\<close>

text \<open>The \<^verbatim>\<open>switch (strategy)\<close> of \<^verbatim>\<open>selectEmployeesWithFairness\<close>.\<close>

definition sortByStrategy ::
    "string \<Rightarrow> string \<Rightarrow> employeeStats \<Rightarrow> rotation_date \<Rightarrow> string list \<Rightarrow> string list" where
  "sortByStrategy strategy shiftType stats date xs =
     (if strategy = ''balanced'' then
        sortBy (\<lambda>a b. totalShiftsOf stats a - totalShiftsOf stats b) xs
      else if strategy = ''minimize_night'' then
        (if shiftType = ''night'' \<or> shiftType = ''weekend-night'' then
           sortBy (\<lambda>a b. js_or (nightShiftsOf stats a - nightShiftsOf stats b)
                            (totalShiftsOf stats a - totalShiftsOf stats b)) xs
         else sortBy (\<lambda>a b. totalShiftsOf stats a - totalShiftsOf stats b) xs)
      else if strategy = ''rotate'' then rotateEmployees date xs
      else sortBy (\<lambda>a b. totalShiftsOf stats a - totalShiftsOf stats b) xs)"

definition selectEmployeesWithFairness ::
    "string list \<Rightarrow> string \<Rightarrow> nat \<Rightarrow> employeeStats \<Rightarrow> string list \<Rightarrow> string \<Rightarrow> rotation_date
       \<Rightarrow> string list" where
  "selectEmployeesWithFairness availableEmployees shiftType requiredCount stats allEmployees
       strategy date =
     (if length availableEmployees \<le> requiredCount then availableEmployees
      else take requiredCount (sortByStrategy strategy shiftType stats date availableEmployees))"

subsection \<open>The earlier revision\<close>

text \<open>
  The earlier revision of the file has \<^verbatim>\<open>getBestEmployeeSelection\<close>,
  \<^verbatim>\<open>getUnderScheduledEmployees\<close> and a two-phase \<^verbatim>\<open>selectEmployeesWithFairness\<close>; their
  models carry the suffix \<open>_rev1\<close>. \<^verbatim>\<open>a.localeCompare(b)\<close> depends on the locale of the
  runtime and is a parameter, \<open>lc\<close>. \<^verbatim>\<open>employeeStats[a] || {totalShifts: 0, ...}\<close> reads a
  missing employee as all zeros.
\<close>

definition statOf :: "employeeStats \<Rightarrow> string \<Rightarrow> employeeStat" where
  "statOf stats a =
     (case map_of stats a of
        None \<Rightarrow> \<lparr>totalShifts = 0, dayShifts = 0, nightShifts = 0\<rparr>
      | Some st \<Rightarrow> st)"

definition balancedCompare_rev1 ::
    "(string \<Rightarrow> string \<Rightarrow> int) \<Rightarrow> string \<Rightarrow> employeeStats \<Rightarrow> string \<Rightarrow> string \<Rightarrow> int" where
  "balancedCompare_rev1 lc shiftType stats a b =
     (let statA = statOf stats a; statB = statOf stats b
      in if totalShifts statA \<noteq> totalShifts statB then totalShifts statA - totalShifts statB
         else if shiftType = ''day'' then
           (let balanceA = nightShifts statA - dayShifts statA;
                balanceB = nightShifts statB - dayShifts statB
            in balanceB - balanceA)
         else if shiftType = ''night'' then
           (let balanceA = dayShifts statA - nightShifts statA;
                balanceB = dayShifts statB - nightShifts statB
            in balanceB - balanceA)
         else lc a b)"

definition minimizeNightCompare_rev1 :: "string \<Rightarrow> employeeStats \<Rightarrow> string \<Rightarrow> string \<Rightarrow> int" where
  "minimizeNightCompare_rev1 shiftType stats a b =
     (let statA = statOf stats a; statB = statOf stats b
      in if shiftType = ''night'' then
           (if nightShifts statA \<noteq> nightShifts statB then nightShifts statA - nightShifts statB
            else totalShifts statA - totalShifts statB)
         else
           (if dayShifts statA \<noteq> dayShifts statB then dayShifts statA - dayShifts statB
            else totalShifts statA - totalShifts statB))"

definition sortByStrategy_rev1 ::
    "(string \<Rightarrow> string \<Rightarrow> int) \<Rightarrow> string \<Rightarrow> string \<Rightarrow> employeeStats \<Rightarrow> rotation_date
       \<Rightarrow> string list \<Rightarrow> string list" where
  "sortByStrategy_rev1 lc strategy shiftType stats date xs =
     (if strategy = ''balanced'' then sortBy (balancedCompare_rev1 lc shiftType stats) xs
      else if strategy = ''minimize_night'' then sortBy (minimizeNightCompare_rev1 shiftType stats) xs
      else if strategy = ''rotate'' then rotateEmployees date xs
      else sortBy (\<lambda>a b. totalShifts (statOf stats a) - totalShifts (statOf stats b)) xs)"

definition getBestEmployeeSelection_rev1 ::
    "(string \<Rightarrow> string \<Rightarrow> int) \<Rightarrow> string list \<Rightarrow> string \<Rightarrow> nat \<Rightarrow> employeeStats \<Rightarrow> string
       \<Rightarrow> rotation_date \<Rightarrow> string list" where
  "getBestEmployeeSelection_rev1 lc availableEmployees shiftType requiredCount stats strategy date =
     (if length availableEmployees \<le> requiredCount then availableEmployees
      else take requiredCount
             (sortByStrategy_rev1 lc strategy shiftType stats date availableEmployees))"

text \<open>
  \<^verbatim>\<open>Object.values(employeeStats)\<close>: one value for each key of the object.
\<close>

definition objectValues :: "('k \<times> 'v) list \<Rightarrow> 'v list" where
  "objectValues entries = map (\<lambda>k. the (map_of entries k)) (remdups (map fst entries))"

text \<open>
  \<^verbatim>\<open>averageShifts = totalShifts / employees.length\<close> is a quotient of two integers, and
  \<^verbatim>\<open>empStat.totalShifts < averageShifts\<close> compares an integer with it. The filter asks it
  of the members of \<^verbatim>\<open>employees\<close> only, so the length is positive where it is asked and
  the comparison is the same as the one between the products. (Counts below \<open>2^53\<close>: the
  quotient is then rounded to a value on the same side of every integer.)
\<close>

definition belowAverage_rev1 :: "employeeStats \<Rightarrow> string list \<Rightarrow> string \<Rightarrow> bool" where
  "belowAverage_rev1 stats employees emp =
     (totalShifts (statOf stats emp) * int (length employees)
        < sum_list (map totalShifts (objectValues stats)))"

definition getUnderScheduledEmployees_rev1 :: "employeeStats \<Rightarrow> string list \<Rightarrow> string list" where
  "getUnderScheduledEmployees_rev1 stats employees =
     sortBy (\<lambda>a b. totalShifts (statOf stats a) - totalShifts (statOf stats b))
       (filter (belowAverage_rev1 stats employees) employees)"

definition selectEmployeesWithFairness_rev1 ::
    "(string \<Rightarrow> string \<Rightarrow> int) \<Rightarrow> string list \<Rightarrow> string \<Rightarrow> nat \<Rightarrow> employeeStats \<Rightarrow> string list
       \<Rightarrow> string \<Rightarrow> rotation_date \<Rightarrow> string list" where
  "selectEmployeesWithFairness_rev1 lc availableEmployees shiftType requiredCount stats
       allEmployees strategy date =
     (if length availableEmployees \<le> requiredCount then availableEmployees
      else
        (let underScheduled = getUnderScheduledEmployees_rev1 stats allEmployees;
             availableUnderScheduled =
               filter (\<lambda>emp. emp \<in> set underScheduled) availableEmployees;
             selected1 =
               (if length availableUnderScheduled > 0 then
                  (let priorityCount = min (length availableUnderScheduled) requiredCount
                   in getBestEmployeeSelection_rev1 lc availableUnderScheduled shiftType
                        priorityCount stats strategy date)
                else [])
         in if length selected1 < requiredCount then
              (let remainingAvailable =
                     filter (\<lambda>emp. emp \<notin> set selected1) availableEmployees;
                   remainingCount = requiredCount - length selected1
               in if length remainingAvailable > 0 then
                    selected1 @ getBestEmployeeSelection_rev1 lc remainingAvailable shiftType
                                  remainingCount stats strategy date
                  else selected1)
            else selected1))"

section \<open>Consecutive work days before a date\<close>

text \<open>
  The loop of \<^verbatim>\<open>calculateConsecutiveWorkDays\<close> runs at most 14 times; its first
  argument here is the number of iterations left, \<open>checkDate\<close> the day it looks at.
\<close>

fun countBack :: "nat \<Rightarrow> scheduleData \<Rightarrow> string \<Rightarrow> date \<Rightarrow> nat \<Rightarrow> nat" where
  "countBack 0 sd e checkDate consecutive = consecutive"
| "countBack (Suc n) sd e checkDate consecutive =
     (if isWorking sd e checkDate then countBack n sd e (checkDate - 1) (Suc consecutive)
      else consecutive)"

text \<open>
  \<^verbatim>\<open>checkDate = new Date(targetDate)\<close> is the caller's value as a local time;
  \<^verbatim>\<open>checkDate.setDate(checkDate.getDate() - 1)\<close> moves it to the day before, and the
  loop reads its local day.
\<close>

definition calculateConsecutiveWorkDays ::
    "timeZone \<Rightarrow> string \<Rightarrow> date_argument \<Rightarrow> scheduleData \<Rightarrow> nat" where
  "calculateConsecutiveWorkDays zone e targetDate sd =
     countBack 14 sd e (localDay zone targetDate - 1) 0"

section \<open>Notions the properties are stated with\<close>

text \<open>
  \<open>workedRun sd e d n\<close>: the employee worked on each of the \<open>n\<close> days that end on day
  \<open>d\<close>, and did not work on the day before them. It is the run of consecutive worked
  days that ends on \<open>d\<close>, with its length.
\<close>

fun workedRun :: "scheduleData \<Rightarrow> string \<Rightarrow> date \<Rightarrow> nat \<Rightarrow> bool" where
  "workedRun sd e d 0 = (\<not> isWorking sd e d)"
| "workedRun sd e d (Suc n) = (isWorking sd e d \<and> workedRun sd e (d - 1) n)"

text \<open>A schedule on which one employee has a day shift on every day from \<open>a\<close> to \<open>b\<close>.\<close>

definition dayShiftsFromTo :: "string \<Rightarrow> date \<Rightarrow> date \<Rightarrow> scheduleData" where
  "dayShiftsFromTo e a b =
     (\<lambda>d. if a \<le> d \<and> d \<le> b then Some [\<lparr>employee = e, shift = ''day''\<rparr>] else None)"

text \<open>The days of the target month, first to last.\<close>

definition monthDays :: "rule_context \<Rightarrow> date list" where
  "monthDays ctx =
     map (newDate (year ctx) (month ctx)) [1..daysInMonth (year ctx) (month ctx)]"

text \<open>
  The night class and the day class of a day, by the day's own holiday flag, and the
  24-hour turnaround they define: the employee has the night-class shift of the day
  before and the day-class shift of the day.
\<close>

definition nightClass :: "rule_context \<Rightarrow> date \<Rightarrow> string" where
  "nightClass ctx d = (if isHoliday d (holidayDates ctx) then ''weekend-night'' else ''night'')"

definition dayClass :: "rule_context \<Rightarrow> date \<Rightarrow> string" where
  "dayClass ctx d = (if isHoliday d (holidayDates ctx) then ''weekend-day'' else ''day'')"

definition worksShift :: "rule_context \<Rightarrow> string \<Rightarrow> date \<Rightarrow> string \<Rightarrow> bool" where
  "worksShift ctx e d k =
     list_ex (\<lambda>s. employee s = e \<and> shift s = k) (shiftsOn (scheduleData ctx) d)"

definition turnaroundOn :: "rule_context \<Rightarrow> string \<Rightarrow> date \<Rightarrow> bool" where
  "turnaroundOn ctx e d =
     (worksShift ctx e (d - 1) (nightClass ctx (d - 1)) \<and> worksShift ctx e d (dayClass ctx d))"

text \<open>
  January 2024 with one employee: a weekend night shift on the 5th, which is a holiday,
  and a day shift on the 6th, which is not.
\<close>

definition turnaroundExample :: rule_context where
  "turnaroundExample =
     \<lparr>scheduleData =
        [newDate 2024 0 5 \<mapsto> [\<lparr>employee = ''A'', shift = ''weekend-night''\<rparr>],
         newDate 2024 0 6 \<mapsto> [\<lparr>employee = ''A'', shift = ''day''\<rparr>]],
      year = 2024, month = 0, shiftTypes = Map.empty, employeeAvailability = None,
      holidayDates = Some [newDate 2024 0 5 \<mapsto> True]\<rparr>"

text \<open>
  The number of assignments the employee has in the target month whose shift is one of
  \<open>ks\<close>, and whether the employee has such an assignment on a day.
\<close>

definition classCount :: "rule_context \<Rightarrow> string \<Rightarrow> string list \<Rightarrow> nat" where
  "classCount ctx e ks =
     sum_list (map (\<lambda>d. length (filter (\<lambda>s. employee s = e \<and> shift s \<in> set ks)
                                    (shiftsOn (scheduleData ctx) d)))
                (monthDays ctx))"

definition hasClassOn :: "rule_context \<Rightarrow> string \<Rightarrow> string list \<Rightarrow> date \<Rightarrow> bool" where
  "hasClassOn ctx e ks d =
     list_ex (\<lambda>s. employee s = e \<and> shift s \<in> set ks) (shiftsOn (scheduleData ctx) d)"

text \<open>January 2024 with one employee, who has a day shift on each of the first ten days.\<close>

definition balanceExample :: rule_context where
  "balanceExample =
     \<lparr>scheduleData = dayShiftsFromTo ''A'' (newDate 2024 0 1) (newDate 2024 0 10),
      year = 2024, month = 0, shiftTypes = Map.empty, employeeAvailability = None,
      holidayDates = None\<rparr>"

text \<open>
  The running streak of a scan that starts on \<open>startDate\<close> and goes forward a day at a
  time: it grows by one on a day the employee works and falls back to 0 on a day the
  employee does not. \<open>streakFrom sd e startDate k\<close> is the streak on the \<open>k\<close>-th day
  after the start, \<open>streakOn sd e startDate d\<close> the streak on day \<open>d\<close>.
\<close>

fun streakFrom :: "scheduleData \<Rightarrow> string \<Rightarrow> date \<Rightarrow> nat \<Rightarrow> nat" where
  "streakFrom sd e startDate 0 = (if isWorking sd e startDate then 1 else 0)"
| "streakFrom sd e startDate (Suc k) =
     (if isWorking sd e (startDate + int (Suc k)) then Suc (streakFrom sd e startDate k) else 0)"

definition streakOn :: "scheduleData \<Rightarrow> string \<Rightarrow> date \<Rightarrow> date \<Rightarrow> nat" where
  "streakOn sd e startDate d = streakFrom sd e startDate (nat (d - startDate))"

text \<open>
  The days of the scan for the threshold \<open>N\<close>, from \<open>N\<close> days before the first of the
  month to its last day, are whole days: the two ends are dates a \<^verbatim>\<open>Date\<close> can hold, and
  every day of the scan has a local midnight in the time zone.
\<close>

definition wholeDays :: "timeZone \<Rightarrow> rule_context \<Rightarrow> int \<Rightarrow> bool" where
  "wholeDays zone ctx N =
     (let startDate = newDate (year ctx) (month ctx) 1 - N;
          endDate = newDate (year ctx) (month ctx + 1) 0
      in validDate startDate \<and> validDate endDate
         \<and> list_all (\<lambda>d. midnightGap zone d = 0) [startDate..endDate])"

text \<open>January 2024 with one employee, who has a day shift on each of the first four days.\<close>

definition fourDayExample :: rule_context where
  "fourDayExample =
     \<lparr>scheduleData = dayShiftsFromTo ''A'' (newDate 2024 0 1) (newDate 2024 0 4),
      year = 2024, month = 0, shiftTypes = Map.empty, employeeAvailability = None,
      holidayDates = None\<rparr>"

text \<open>
  Whether the type tag of a rule has a handler in its registry, and the conflict count
  that handler returns for the rule.
\<close>

definition employeeRuleRegistered :: "timeZone \<Rightarrow> employee_rule \<Rightarrow> bool" where
  "employeeRuleRegistered zone rule = (map_of (employeeRuleHandlers zone) (er_type rule) \<noteq> None)"

definition shiftRuleRegistered :: "shift_rule \<Rightarrow> bool" where
  "shiftRuleRegistered rule = (map_of shiftRuleHandlers (sr_type rule) \<noteq> None)"

definition employeeRuleCount :: "timeZone \<Rightarrow> rule_context \<Rightarrow> employee_rule \<Rightarrow> nat" where
  "employeeRuleCount zone ctx rule =
     fst (the (map_of (employeeRuleHandlers zone) (er_type rule)) ctx rule)"

definition shiftRuleCount :: "rule_context \<Rightarrow> shift_rule \<Rightarrow> nat" where
  "shiftRuleCount ctx rule = fst (the (map_of shiftRuleHandlers (sr_type rule)) ctx rule)"

text \<open>The count a system-rule handler returns, when it returns.\<close>

definition systemRuleCount :: "rule_context \<Rightarrow> (rule_context \<Rightarrow> outcome completion) \<Rightarrow> nat" where
  "systemRuleCount ctx handler = (case handler ctx of Inl err \<Rightarrow> 0 | Inr r \<Rightarrow> fst r)"

text \<open>The configured rules: a missing list holds no rule.\<close>

definition configuredEmployeeRules :: "validate_params \<Rightarrow> employee_rule list" where
  "configuredEmployeeRules p =
     (case employeeRules (p_schedulingConditions p) of None \<Rightarrow> [] | Some rules \<Rightarrow> rules)"

definition configuredShiftRules :: "validate_params \<Rightarrow> shift_rule list" where
  "configuredShiftRules p =
     (case shiftRules (p_schedulingConditions p) of None \<Rightarrow> [] | Some rules \<Rightarrow> rules)"

text \<open>
  The sum the validation is to return: the counts of the handlers of the configured
  rules whose tag is registered, and the counts of all system-rule handlers.
\<close>

definition handlerSum :: "timeZone \<Rightarrow> validate_params \<Rightarrow> nat" where
  "handlerSum zone p =
     (let ctx = makeContext p
      in sum_list (map (employeeRuleCount zone ctx)
                     (filter (employeeRuleRegistered zone) (configuredEmployeeRules p)))
         + sum_list (map (shiftRuleCount ctx)
                       (filter shiftRuleRegistered (configuredShiftRules p)))
         + sum_list (map (systemRuleCount ctx) (map snd systemRuleHandlers)))"

text \<open>The object a validation run returns, when it returns.\<close>

definition returnedValidation :: "(validation \<times> event list) completion \<Rightarrow> validation option" where
  "returnedValidation r = (case r of Inl err \<Rightarrow> None | Inr v \<Rightarrow> Some (fst v))"

text \<open>
  No name of the run is the name of a member of \<^verbatim>\<open>Object.prototype\<close>: no tag of a
  configured rule, and no employee with a shift other than \<^verbatim>\<open>off\<close> on a day of the
  target month.
\<close>

definition plainTags :: "validate_params \<Rightarrow> bool" where
  "plainTags p =
     (list_all (\<lambda>rule. er_type rule \<notin> set objectPrototypeNames) (configuredEmployeeRules p)
      \<and> list_all (\<lambda>rule. sr_type rule \<notin> set objectPrototypeNames) (configuredShiftRules p))"

definition plainEmployees :: "rule_context \<Rightarrow> bool" where
  "plainEmployees ctx =
     list_all (\<lambda>d. list_all (\<lambda>s. shift s = ''off'' \<or> employee s \<notin> set objectPrototypeNames)
                     (shiftsOn (scheduleData ctx) d))
       (monthDays ctx)"

text \<open>
  The parameters of a validation run on the four-day example: an employee rule with a
  tag no registry knows, a rule of at most three consecutive work days, and no shift
  rules.
\<close>

definition fourDayParams :: validate_params where
  "fourDayParams =
     \<lparr>p_year = 2024, p_month = 0,
      p_scheduleData = dayShiftsFromTo ''A'' (newDate 2024 0 1) (newDate 2024 0 4),
      p_schedulingConditions =
        \<lparr>employeeRules =
           Some [\<lparr>er_type = ''maxWeeklyHours'', er_employee = ''A'', er_value = VNum 40\<rparr>,
                 \<lparr>er_type = ''maxConsecutiveWorkDays'', er_employee = ''A'', er_value = VStr ''3''\<rparr>],
         shiftRules = None\<rparr>,
      p_shiftTypes = Map.empty, p_employeeAvailability = None, p_holidayDates = None\<rparr>"

text \<open>
  A validation run on an empty calendar with one employee rule, whose tag is the name
  of an inherited member.
\<close>

definition inheritedTagParams :: "string \<Rightarrow> validate_params" where
  "inheritedTagParams tag =
     \<lparr>p_year = 2024, p_month = 0,
      p_scheduleData = Map.empty,
      p_schedulingConditions =
        \<lparr>employeeRules = Some [\<lparr>er_type = tag, er_employee = ''A'', er_value = VNum 3\<rparr>],
         shiftRules = None\<rparr>,
      p_shiftTypes = Map.empty, p_employeeAvailability = None, p_holidayDates = None\<rparr>"

text \<open>
  A time zone whose days all have a local midnight, at UTC; the zone of Sao Paulo in
  November 2018, three hours west of UTC, where daylight saving time began on the 4th
  at 00:00, so that the day started at 01:00 and the offset became two hours; and a
  zone five hours west of UTC.
\<close>

definition utcZone :: timeZone where
  "utcZone = \<lparr>midnightGap = (\<lambda>d. 0), utcOffset = (\<lambda>d. 0)\<rparr>"

definition saoPaulo2018 :: timeZone where
  "saoPaulo2018 =
     \<lparr>midnightGap = (\<lambda>d. if d = newDate 2018 10 4 then 3600000 else 0),
      utcOffset = (\<lambda>d. if d \<le> newDate 2018 10 4 then - 10800000 else - 7200000)\<rparr>"

definition newYork :: timeZone where
  "newYork = \<lparr>midnightGap = (\<lambda>d. 0), utcOffset = (\<lambda>d. - 18000000)\<rparr>"

text \<open>
  November 2018 with one employee, who has a day shift on each of the last four days
  of the month.
\<close>

definition lastFourDaysExample :: rule_context where
  "lastFourDaysExample =
     \<lparr>scheduleData = dayShiftsFromTo ''A'' (newDate 2018 10 27) (newDate 2018 10 30),
      year = 2018, month = 10, shiftTypes = Map.empty, employeeAvailability = None,
      holidayDates = None\<rparr>"

text \<open>
  January 2024 with one employee, who has a day shift on each of the first three days
  and a night shift on the fourth.
\<close>

definition threeToOneExample :: rule_context where
  "threeToOneExample =
     \<lparr>scheduleData =
        (dayShiftsFromTo ''A'' (newDate 2024 0 1) (newDate 2024 0 3))
          (newDate 2024 0 4 \<mapsto> [\<lparr>employee = ''A'', shift = ''night''\<rparr>]),
      year = 2024, month = 0, shiftTypes = Map.empty, employeeAvailability = None,
      holidayDates = None\<rparr>"

text \<open>
  What the balance rule is to return when the maximum difference is \<open>D\<close>: with the
  employee's day-class and night-class counts of the month differing by more than \<open>D\<close>
  and not both zero, one conflict with one finding, on the latest day of the month
  that has a shift of the dominant class; otherwise no conflict and no finding.
\<close>

definition balanceOutcome :: "rule_context \<Rightarrow> employee_rule \<Rightarrow> int \<Rightarrow> bool" where
  "balanceOutcome ctx rule D =
     (let e = er_employee rule;
          dc = classCount ctx e [''day'', ''weekend-day''];
          nc = classCount ctx e [''night'', ''weekend-night''];
          dominant = (if dc > nc then [''day'', ''weekend-day''] else [''night'', ''weekend-night''])
      in if \<bar>int dc - int nc\<bar> > D \<and> (dc > 0 \<or> nc > 0)
         then \<exists>last\<in>set (monthDays ctx).
                hasClassOn ctx e dominant last
                \<and> (\<forall>d\<in>set (monthDays ctx). last < d \<longrightarrow> \<not> hasClassOn ctx e dominant d)
                \<and> checkShiftBalance ctx rule
                    = (1, [Highlight last (Imbalance e dc nc (nat \<bar>int dc - int nc\<bar>) D)])
         else checkShiftBalance ctx rule = (0, []))"






section \<open>The length of a month\<close>

lemma div_step:
  assumes n: "0 < n"
  shows "((x::int) + 1) div n = x div n + (if (x + 1) mod n = 0 then 1 else 0)"
proof -
  define q where "q = x div n"
  define r where "r = x mod n"
  have x: "x = q * n + r" by (simp add: q_def r_def)
  have r: "0 \<le> r" "r < n" using n by (simp_all add: r_def)
  from n have n0: "n \<noteq> 0" by simp
  show ?thesis
  proof (cases "r + 1 < n")
    case True
    have e: "x + 1 = q * n + (r + 1)" by (simp add: x)
    have t: "(r + 1) div n = 0" "(r + 1) mod n = r + 1"
      using r True by simp_all
    have d: "(x + 1) div n = q"
      unfolding e div_mult_self3 [OF n0] t by simp
    have m: "(x + 1) mod n = r + 1"
      unfolding e mod_mult_self3 t by simp
    from m r have "(x + 1) mod n \<noteq> 0" by simp
    with d show ?thesis by (simp add: q_def)
  next
    case False
    with r have "r + 1 = n" by simp
    then have e: "x + 1 = (q + 1) * n + 0" by (simp add: x algebra_simps)
    have d: "(x + 1) div n = q + 1"
      unfolding e div_mult_self3 [OF n0] by simp
    have m: "(x + 1) mod n = 0"
      unfolding e mod_mult_self3 by simp
    from d m show ?thesis by (simp add: q_def)
  qed
qed

lemma leap_count:
  "(if (y - 1968) mod 4 = 0 then 1 else 0) - (if (y - 1900) mod 100 = 0 then 1 else 0)
     + (if (y - 1600) mod 400 = 0 then 1 else 0) = (if isLeapYear y then 1 else (0::int))"
proof -
  have 4: "(4 dvd y - 1968) = (4 dvd y)"
    by (simp add: dvd_diff_left_iff)
  have 100: "(100 dvd y - 1900) = (100 dvd y)"
    by (simp add: dvd_diff_left_iff)
  have 400: "(400 dvd y - 1600) = (400 dvd y)"
    by (simp add: dvd_diff_left_iff)
  have a: "400 dvd y \<Longrightarrow> 100 dvd y"
    by (rule dvd_trans [of 100 400]) simp_all
  have b: "100 dvd y \<Longrightarrow> 4 dvd y"
    by (rule dvd_trans [of 4 100]) simp_all
  show ?thesis
    unfolding isLeapYear_def mod_eq_0_iff_dvd 4 100 400 using a b by auto
qed

lemma DayFromYear_Suc:
  "DayFromYear (y + 1) = DayFromYear y + 365 + (if isLeapYear y then 1 else 0)"
proof -
  have 1: "(y + 1 - 1969) div 4 = (y - 1969) div 4 + (if (y - 1968) mod 4 = 0 then 1 else 0)"
    using div_step [of 4 "y - 1969"] by (simp add: algebra_simps)
  have 2: "(y + 1 - 1901) div 100 = (y - 1901) div 100 + (if (y - 1900) mod 100 = 0 then 1 else 0)"
    using div_step [of 100 "y - 1901"] by (simp add: algebra_simps)
  have 3: "(y + 1 - 1601) div 400 = (y - 1601) div 400 + (if (y - 1600) mod 400 = 0 then 1 else 0)"
    using div_step [of 400 "y - 1601"] by (simp add: algebra_simps)
  have "DayFromYear (y + 1) = DayFromYear y + 365
          + ((if (y - 1968) mod 4 = 0 then 1 else 0) - (if (y - 1900) mod 100 = 0 then 1 else 0)
             + (if (y - 1600) mod 400 = 0 then 1 else 0))"
    unfolding DayFromYear_def 1 2 3 by simp
  then show ?thesis unfolding leap_count .
qed

lemma firstOfMonth_step:
  "firstOfMonth y (m + 1) - firstOfMonth y m \<in> {28, 29, 30, 31}"
proof -
  define q where "q = m div 12"
  define r where "r = m mod 12"
  have r: "0 \<le> r" "r < 12" by (simp_all add: r_def)
  have m: "m = q * 12 + r" by (simp add: q_def r_def)
  have cur: "firstOfMonth y m = DayFromYear (y + q) + daysBeforeMonth (y + q) r"
    by (simp add: firstOfMonth_def q_def r_def Let_def)
  show ?thesis
  proof (cases "r = 11")
    case True
    have "m + 1 = (q + 1) * 12 + 0" by (simp add: m True)
    then have "(m + 1) div 12 = q + 1" "(m + 1) mod 12 = 0" by simp_all
    then have nxt: "firstOfMonth y (m + 1) = DayFromYear (y + q + 1) + daysBeforeMonth (y + q + 1) 0"
      by (simp add: firstOfMonth_def add.assoc Let_def)
    show ?thesis
      unfolding cur nxt True DayFromYear_Suc
      by (simp add: daysBeforeMonth_def)
  next
    case False
    with r have r10: "r \<le> 10" by simp
    have "m + 1 = q * 12 + (r + 1)" by (simp add: m)
    moreover have "(r + 1) div 12 = 0" "(r + 1) mod 12 = r + 1"
      using r r10 by simp_all
    ultimately have "(m + 1) div 12 = q" "(m + 1) mod 12 = r + 1"
      by (simp_all only: div_mult_self3 mod_mult_self3)
    then have nxt: "firstOfMonth y (m + 1) = DayFromYear (y + q) + daysBeforeMonth (y + q) (r + 1)"
      by (simp add: firstOfMonth_def Let_def)
    from r r10 have "r = 0 \<or> r = 1 \<or> r = 2 \<or> r = 3 \<or> r = 4 \<or> r = 5 \<or> r = 6
        \<or> r = 7 \<or> r = 8 \<or> r = 9 \<or> r = 10" by arith
    then show ?thesis
      unfolding cur nxt
      by (elim disjE) (simp_all add: daysBeforeMonth_def)
  qed
qed

lemma daysInMonth_range: "daysInMonth y m \<in> {28, 29, 30, 31}"
  using firstOfMonth_step [of y m] by (simp add: daysInMonth_def newDate_def)

section \<open>The days of a month\<close>

lemma distinct_monthDays: "distinct (monthDays ctx)"
  by (simp add: monthDays_def distinct_map inj_on_def newDate_def)

lemma monthDays_member:
  "1 \<le> k \<Longrightarrow> k \<le> daysInMonth (year ctx) (month ctx) \<Longrightarrow>
     newDate (year ctx) (month ctx) k \<in> set (monthDays ctx)"
  by (simp add: monthDays_def)

lemma filter_eq_singleton:
  "distinct xs \<Longrightarrow> x \<in> set xs \<Longrightarrow> filter (\<lambda>d. d = x) xs = [x]"
  by (induction xs) (auto simp: filter_empty_conv)

lemma newDate_2024_0: "newDate 2024 0 k = 19722 + k"
  by (simp add: newDate_def firstOfMonth_def DayFromYear_def daysBeforeMonth_def isLeapYear_def)

lemma daysInMonth_2024_0: "daysInMonth 2024 0 = 31"
  by (simp add: daysInMonth_def newDate_def firstOfMonth_def DayFromYear_def daysBeforeMonth_def
        isLeapYear_def)

lemma newDate_less: "(newDate y m j < newDate y m k) = (j < k)"
  by (simp add: newDate_def)

lemma sum_list_pos_ex: "0 < sum_list (map f xs) \<Longrightarrow> \<exists>x\<in>set xs. 0 < (f x :: nat)"
  by (induction xs) auto

lemma int_nat_abs: "int (nat \<bar>x\<bar>) = \<bar>x\<bar>"
  by simp

lemma isWorking_dayShifts: "isWorking (dayShiftsFromTo e a b) e d = (a \<le> d \<and> d \<le> b)"
  by (simp add: isWorking_def shiftsOn_def dayShiftsFromTo_def)

lemma newDate_2024_1: "newDate 2024 1 k = 19753 + k"
  by (simp add: newDate_def firstOfMonth_def DayFromYear_def daysBeforeMonth_def isLeapYear_def)

lemma upto_snoc: "[a .. a + int (Suc n)] = [a .. a + int n] @ [a + int (Suc n)]"
  using upto_rec2 [of a "a + int (Suc n)"] by simp


lemma newDate_2018_10: "newDate 2018 10 k = 17835 + k"
  by (simp add: newDate_def firstOfMonth_def DayFromYear_def daysBeforeMonth_def isLeapYear_def)

lemma newDate_2018_11: "newDate 2018 11 k = 17865 + k"
  by (simp add: newDate_def firstOfMonth_def DayFromYear_def daysBeforeMonth_def isLeapYear_def)
section \<open>Balance of day and night shifts\<close>

lemma balanceCountShift_fold:
  "foldl (balanceCountShift e) (dc, nc) shifts =
     (dc + length (filter (\<lambda>s. employee s = e \<and> shift s \<in> set [''day'', ''weekend-day'']) shifts),
      nc + length (filter (\<lambda>s. employee s = e \<and> shift s \<in> set [''night'', ''weekend-night'']) shifts))"
  by (induction shifts arbitrary: dc nc) (simp_all add: balanceCountShift_def)

lemma balanceCountDay_fold:
  "foldl (balanceCountDay ctx e) (dc, nc) days =
     (dc + sum_list (map (\<lambda>d. length (filter (\<lambda>s. employee s = e \<and> shift s \<in> set [''day'', ''weekend-day''])
                                    (shiftsOn (scheduleData ctx) d)))
                (map (newDate (year ctx) (month ctx)) days)),
      nc + sum_list (map (\<lambda>d. length (filter (\<lambda>s. employee s = e \<and> shift s \<in> set [''night'', ''weekend-night''])
                                    (shiftsOn (scheduleData ctx) d)))
                (map (newDate (year ctx) (month ctx)) days)))"
  by (induction days arbitrary: dc nc) (simp_all add: balanceCountDay_def balanceCountShift_fold)

lemma balance_counts:
  "foldl (balanceCountDay ctx e) (0, 0) [1..daysInMonth (year ctx) (month ctx)] =
     (classCount ctx e [''day'', ''weekend-day''], classCount ctx e [''night'', ''weekend-night''])"
  by (simp add: balanceCountDay_fold classCount_def monthDays_def)

lemma find_rev_last:
  "sorted xs \<Longrightarrow> find P (rev xs) = Some x \<Longrightarrow>
     x \<in> set xs \<and> P x \<and> (\<forall>y\<in>set xs. x < y \<longrightarrow> \<not> P y)"
proof (induction xs rule: rev_induct)
  case Nil
  then show ?case by simp
next
  case (snoc a xs)
  from snoc.prems(1) have s: "sorted xs" and le: "\<forall>y\<in>set xs. y \<le> a"
    by (auto simp: sorted_append)
  show ?case
  proof (cases "P a")
    case True
    with snoc.prems(2) have "x = a" by simp
    with True le show ?thesis by auto
  next
    case False
    with snoc.prems(2) have "find P (rev xs) = Some x" by simp
    from snoc.IH [OF s this] False show ?thesis by auto
  qed
qed

lemma find_rev_exists: "\<exists>y\<in>set xs. P y \<Longrightarrow> \<exists>x. find P (rev xs) = Some x"
  by (cases "find P (rev xs)") (auto simp: find_None_iff)

lemma hasDominantShift_eq:
  "hasDominantShift ctx e ks day = hasClassOn ctx e ks (newDate (year ctx) (month ctx) day)"
  by (simp add: hasDominantShift_def hasClassOn_def)

lemma classCount_pos:
  "0 < classCount ctx e ks \<Longrightarrow> \<exists>d\<in>set (monthDays ctx). hasClassOn ctx e ks d"
proof -
  assume "0 < classCount ctx e ks"
  then obtain d where d: "d \<in> set (monthDays ctx)"
    and "0 < length (filter (\<lambda>s. employee s = e \<and> shift s \<in> set ks) (shiftsOn (scheduleData ctx) d))"
    unfolding classCount_def by (blast dest: sum_list_pos_ex)
  then have "hasClassOn ctx e ks d"
    by (auto simp: hasClassOn_def list_ex_iff filter_empty_conv)
  with d show ?thesis by blast
qed

lemma last_dominant_day:
  assumes "\<exists>d\<in>set (monthDays ctx). hasClassOn ctx e ks d"
  shows "\<exists>day. find (hasDominantShift ctx e ks) (rev [1..daysInMonth (year ctx) (month ctx)]) = Some day
           \<and> newDate (year ctx) (month ctx) day \<in> set (monthDays ctx)
           \<and> hasClassOn ctx e ks (newDate (year ctx) (month ctx) day)
           \<and> (\<forall>d\<in>set (monthDays ctx). newDate (year ctx) (month ctx) day < d \<longrightarrow> \<not> hasClassOn ctx e ks d)"
proof -
  define days where "days = [1..daysInMonth (year ctx) (month ctx)]"
  define f where "f = newDate (year ctx) (month ctx)"
  define P where "P = hasDominantShift ctx e ks"
  have md: "set (monthDays ctx) = f ` set days"
    by (simp add: monthDays_def days_def f_def)
  have P: "P k = hasClassOn ctx e ks (f k)" for k
    by (simp add: P_def f_def hasDominantShift_eq)
  from assms obtain k where "k \<in> set days" "P k"
    unfolding md P by blast
  then have "\<exists>y\<in>set days. P y" by blast
  then obtain day where fd: "find P (rev days) = Some day"
    by (rule find_rev_exists [THEN exE])
  have "sorted days" by (simp add: days_def)
  from find_rev_last [OF this fd]
  have 1: "day \<in> set days" and 2: "P day" and 3: "\<forall>k\<in>set days. day < k \<longrightarrow> \<not> P k"
    by blast+
  have 4: "\<forall>d\<in>set (monthDays ctx). f day < d \<longrightarrow> \<not> hasClassOn ctx e ks d"
  proof (intro ballI impI)
    fix d assume "d \<in> set (monthDays ctx)" and lt: "f day < d"
    then obtain k where k: "k \<in> set days" and d: "d = f k" unfolding md by blast
    from lt have "day < k" unfolding d f_def newDate_less .
    with 3 k have "\<not> P k" by blast
    then show "\<not> hasClassOn ctx e ks d" unfolding P d .
  qed
  from 1 have "f day \<in> set (monthDays ctx)" unfolding md by blast
  moreover from 2 have "hasClassOn ctx e ks (f day)" unfolding P .
  ultimately have "find P (rev days) = Some day \<and> f day \<in> set (monthDays ctx)
      \<and> hasClassOn ctx e ks (f day)
      \<and> (\<forall>d\<in>set (monthDays ctx). f day < d \<longrightarrow> \<not> hasClassOn ctx e ks d)"
    using fd 4 by blast
  then show ?thesis unfolding P_def f_def days_def by (rule exI)
qed

lemma checkShiftBalance_eq:
  "checkShiftBalance ctx rule =
     (if \<bar>int (classCount ctx (er_employee rule) [''day'', ''weekend-day''])
            - int (classCount ctx (er_employee rule) [''night'', ''weekend-night''])\<bar>
           > maxDifferenceOf (er_value rule)
         \<and> (classCount ctx (er_employee rule) [''day'', ''weekend-day''] > 0
            \<or> classCount ctx (er_employee rule) [''night'', ''weekend-night''] > 0)
      then (1, case find (hasDominantShift ctx (er_employee rule)
                     (if classCount ctx (er_employee rule) [''day'', ''weekend-day'']
                          > classCount ctx (er_employee rule) [''night'', ''weekend-night'']
                      then [''day'', ''weekend-day''] else [''night'', ''weekend-night'']))
                   (rev [1..daysInMonth (year ctx) (month ctx)]) of
                None \<Rightarrow> []
              | Some day \<Rightarrow>
                  [Highlight (newDate (year ctx) (month ctx) day)
                     (Imbalance (er_employee rule)
                        (classCount ctx (er_employee rule) [''day'', ''weekend-day''])
                        (classCount ctx (er_employee rule) [''night'', ''weekend-night''])
                        (nat \<bar>int (classCount ctx (er_employee rule) [''day'', ''weekend-day''])
                              - int (classCount ctx (er_employee rule) [''night'', ''weekend-night''])\<bar>)
                        (maxDifferenceOf (er_value rule)))])
      else (0, []))"
  unfolding checkShiftBalance_def Let_def balance_counts fst_conv snd_conv int_nat_abs
  by (rule refl)

lemma monthDays_balanceExample: "monthDays balanceExample = map (\<lambda>k. 19722 + k) [1..31]"
  by (simp add: monthDays_def balanceExample_def daysInMonth_2024_0 newDate_2024_0)

lemma shiftsOn_balanceExample:
  "shiftsOn (scheduleData balanceExample) d =
     (if 19723 \<le> d \<and> d \<le> 19732 then [\<lparr>employee = ''A'', shift = ''day''\<rparr>] else [])"
  by (simp add: balanceExample_def dayShiftsFromTo_def shiftsOn_def newDate_2024_0)

lemma dc_balanceExample: "classCount balanceExample ''A'' [''day'', ''weekend-day''] = 10"
  unfolding classCount_def monthDays_balanceExample shiftsOn_balanceExample
  by (simp add: upto_rec1)

lemma nc_balanceExample: "classCount balanceExample ''A'' [''night'', ''weekend-night''] = 0"
  unfolding classCount_def shiftsOn_balanceExample
  by simp

lemma hasClassOn_balanceExample:
  "hasClassOn balanceExample ''A'' [''day'', ''weekend-day''] d = (19723 \<le> d \<and> d \<le> 19732)"
  unfolding hasClassOn_def shiftsOn_balanceExample by simp

lemma hasDominantShift_balanceExample:
  "hasDominantShift balanceExample ''A'' [''day'', ''weekend-day''] k = (1 \<le> k \<and> k \<le> 10)"
  unfolding hasDominantShift_eq hasClassOn_balanceExample
  by (auto simp: balanceExample_def newDate_2024_0)

lemma last_day_balanceExample:
  "find (hasDominantShift balanceExample ''A'' [''day'', ''weekend-day''])
     (rev [1..daysInMonth (year balanceExample) (month balanceExample)]) = Some 10"
proof -
  define P where "P = hasDominantShift balanceExample ''A'' [''day'', ''weekend-day'']"
  have P: "P k = (1 \<le> k \<and> k \<le> 10)" for k
    by (simp add: P_def hasDominantShift_balanceExample)
  have d: "daysInMonth (year balanceExample) (month balanceExample) = 31"
    by (simp add: balanceExample_def daysInMonth_2024_0)
  have "\<exists>y\<in>set [1..31]. P y" by (rule bexI [of _ 10]) (simp_all add: P)
  then obtain day where f: "find P (rev [1..31]) = Some day"
    by (rule find_rev_exists [THEN exE])
  have "sorted [1..31::int]" by simp
  from find_rev_last [OF this f]
  have 2: "P day" and 3: "\<forall>k\<in>set [1..31]. day < k \<longrightarrow> \<not> P k" by blast+
  from 3 have "day < 10 \<longrightarrow> \<not> P 10" by simp
  with 2 have "day = 10" by (auto simp: P)
  with f show ?thesis unfolding d P_def by simp
qed

section \<open>Maximum consecutive work days\<close>

lemma streakOn_offset: "streakOn sd e a (a + int k) = streakFrom sd e a k"
  by (simp add: streakOn_def)

lemma streak_pos_working:
  "0 < streakOn sd e a d \<Longrightarrow> a \<le> d \<Longrightarrow> isWorking sd e d"
proof -
  assume s: "0 < streakOn sd e a d" and le: "a \<le> d"
  then obtain k where d: "d = a + int k" by (metis zle_iff_zadd)
  from s show ?thesis unfolding d streakOn_offset by (cases k) (auto split: if_splits)
qed

lemma maxConsecutiveStep_eq:
  "c = streakFrom (scheduleData ctx) e a n \<Longrightarrow>
   maxConsecutiveStep ctx e N (c, k, log) (a + int (Suc n)) =
     (let d = a + int (Suc n); c' = streakFrom (scheduleData ctx) e a (Suc n)
      in if isWorking (scheduleData ctx) e d \<and> int c' > N \<and> inMonth (year ctx) (month ctx) d
         then (c', Suc k, log @ [Highlight d (ConsecutiveDays e c' N)])
         else (c', k, log))"
  by (simp add: maxConsecutiveStep_def Let_def)

lemma maxConsecutive_fold:
  "foldl (maxConsecutiveStep ctx e N) (0, 0, []) [a .. a + int n] =
     (let ds = filter (\<lambda>d. isWorking (scheduleData ctx) e d
                            \<and> int (streakOn (scheduleData ctx) e a d) > N
                            \<and> inMonth (year ctx) (month ctx) d) [a .. a + int n]
      in (streakFrom (scheduleData ctx) e a n, length ds,
          map (\<lambda>d. Highlight d (ConsecutiveDays e (streakOn (scheduleData ctx) e a d) N)) ds))"
proof (induction n)
  case 0
  show ?case by (simp add: maxConsecutiveStep_def streakOn_def Let_def)
next
  case (Suc n)
  show ?case
    unfolding upto_snoc foldl_append Suc.IH filter_append Let_def foldl.simps
      maxConsecutiveStep_eq [OF refl]
    by (simp add: streakOn_offset del: streakFrom.simps of_nat_Suc)
qed

lemma scanDays_past: "fst endDate < fst d \<Longrightarrow> scanDays zone body d endDate st = st"
  by (subst scanDays.simps) (simp add: notAfter_def)

lemma scanDays_step:
  "notAfter d endDate \<Longrightarrow>
     scanDays zone body d endDate st = scanDays zone body (setDateNext zone d) endDate (body st (fst d))"
  by (subst scanDays.simps) simp

lemma scanDays_cons:
  assumes na: "notAfter (a, t) endDate" and nx: "setDateNext zone (a, t) = d'"
    and rest: "scanDays zone body d' endDate (body st a) = foldl body (body st a) xs"
  shows "scanDays zone body (a, t) endDate st = foldl body st (a # xs)"
proof -
  have "scanDays zone body (a, t) endDate st
          = scanDays zone body (setDateNext zone (a, t)) endDate (body st (fst (a, t)))"
    by (rule scanDays_step [OF na])
  also have "\<dots> = scanDays zone body d' endDate (body st a)"
    by (simp only: nx fst_conv)
  also have "\<dots> = foldl body st (a # xs)"
    by (simp only: rest foldl.simps)
  finally show ?thesis .
qed

lemma scanDays_no_gap:
  assumes g: "\<forall>d. a \<le> d \<and> d \<le> b \<longrightarrow> midnightGap zone d = 0"
  shows "scanDays zone body (a, 0) (b, 0) st = foldl body st [a..b]"
  using g
proof (induction "nat (b + 1 - a)" arbitrary: a st)
  case 0
  then have ba: "b < a" by simp
  then have "scanDays zone body (a, 0) (b, 0) st = st" by (intro scanDays_past) simp
  with ba show ?case by simp
next
  case (Suc n)
  then have le: "a \<le> b" by simp
  then have na: "notAfter (a, 0) (b, 0)" by (auto simp: notAfter_def)
  have up: "[a..b] = a # [a + 1..b]" using le by (simp add: upto_rec1)
  show ?case
  proof (cases "a = b")
    case True
    obtain t' where nx: "setDateNext zone (a, 0) = (a + 1, t')"
      by (simp add: setDateNext_def atLocalTime_def)
    have "scanDays zone body (a + 1, t') (b, 0) (body st a) = body st a"
      using True by (intro scanDays_past) simp
    moreover have "[a + 1..b] = []" using True by simp
    ultimately have "scanDays zone body (a + 1, t') (b, 0) (body st a)
                       = foldl body (body st a) [a + 1..b]"
      by simp
    from scanDays_cons [OF na nx this] show ?thesis unfolding up .
  next
    case False
    with le have lt: "a < b" by simp
    with Suc.prems have "midnightGap zone (a + 1) = 0" by simp
    then have nx: "setDateNext zone (a, 0) = (a + 1, 0)"
      by (simp add: setDateNext_def atLocalTime_def)
    from Suc.hyps(2) have n: "n = nat (b + 1 - (a + 1))" by simp
    from Suc.prems have g': "\<forall>d. a + 1 \<le> d \<and> d \<le> b \<longrightarrow> midnightGap zone d = 0" by simp
    have "scanDays zone body (a + 1, 0) (b, 0) (body st a) = foldl body (body st a) [a + 1..b]"
      using Suc.hyps(1) [OF n g'] .
    from scanDays_cons [OF na nx this] show ?thesis unfolding up .
  qed
qed

lemma scanDays_late:
  assumes t: "0 < t" and g: "\<forall>d. a < d \<and> d \<le> b \<longrightarrow> midnightGap zone d = 0"
  shows "scanDays zone body (a, t) (b, 0) st = foldl body st [a..b - 1]"
  using g
proof (induction "nat (b - a)" arbitrary: a st)
  case 0
  then have ba: "b \<le> a" by simp
  with t have "\<not> notAfter (a, t) (b, 0)" by (auto simp: notAfter_def)
  then have "scanDays zone body (a, t) (b, 0) st = st" by (subst scanDays.simps) simp
  with ba show ?case by simp
next
  case (Suc n)
  then have lt: "a < b" by simp
  then have na: "notAfter (a, t) (b, 0)" by (simp add: notAfter_def)
  from lt Suc.prems have "midnightGap zone (a + 1) = 0" by simp
  with t have nx: "setDateNext zone (a, t) = (a + 1, t)"
    by (simp add: setDateNext_def atLocalTime_def)
  from Suc.hyps(2) have n: "n = nat (b - (a + 1))" by simp
  from Suc.prems have g': "\<forall>d. a + 1 < d \<and> d \<le> b \<longrightarrow> midnightGap zone d = 0" by simp
  have up: "[a..b - 1] = a # [a + 1..b - 1]" using lt by (simp add: upto_rec1)
  have "scanDays zone body (a + 1, t) (b, 0) (body st a) = foldl body (body st a) [a + 1..b - 1]"
    using Suc.hyps(1) [OF n g'] .
  from scanDays_cons [OF na nx this] show ?case unfolding up .
qed

lemma scanDays_gap:
  assumes t: "0 < midnightGap zone c" and ac: "a < c" and cb: "c < b"
    and g: "\<forall>d. a \<le> d \<and> d \<le> b \<and> d \<noteq> c \<longrightarrow> midnightGap zone d = 0"
  shows "scanDays zone body (localMidnight zone a) (localMidnight zone b) st
           = foldl body st [a..b - 1]"
proof -
  from g ac cb have ga: "midnightGap zone a = 0" and gb: "midnightGap zone b = 0" by simp_all
  from g ac have "\<forall>d. c < d \<and> d \<le> b \<longrightarrow> midnightGap zone d = 0" by auto
  from scanDays_late [OF t this]
  have post: "scanDays zone body (c, midnightGap zone c) (b, 0) st' = foldl body st' [c..b - 1]" for st' .
  have pre: "scanDays zone body (a', 0) (b, 0) st' = foldl body st' [a'..b - 1]"
    if "a \<le> a'" "a' < c" for a' st'
    using that
  proof (induction "nat (c - a')" arbitrary: a' st')
    case 0
    then show ?case by simp
  next
    case (Suc n)
    from Suc.prems cb have na: "notAfter (a', 0) (b, 0)" by (simp add: notAfter_def)
    have up: "[a'..b - 1] = a' # [a' + 1..b - 1]" using Suc.prems cb by (simp add: upto_rec1)
    show ?case
    proof (cases "a' + 1 = c")
      case True
      with t have nx: "setDateNext zone (a', 0) = (c, midnightGap zone c)"
        by (simp add: setDateNext_def atLocalTime_def)
      have "scanDays zone body (c, midnightGap zone c) (b, 0) (body st' a')
              = foldl body (body st' a') [a' + 1..b - 1]"
        unfolding post True ..
      from scanDays_cons [OF na nx this] show ?thesis unfolding up .
    next
      case False
      with Suc.prems have lt: "a' + 1 < c" by simp
      with Suc.prems cb g have "midnightGap zone (a' + 1) = 0" by simp
      then have nx: "setDateNext zone (a', 0) = (a' + 1, 0)"
        by (simp add: setDateNext_def atLocalTime_def)
      from Suc.hyps(2) have n: "n = nat (c - (a' + 1))" by simp
      from Suc.prems have "a \<le> a' + 1" by simp
      from Suc.hyps(1) [OF n this lt]
      have "scanDays zone body (a' + 1, 0) (b, 0) (body st' a')
              = foldl body (body st' a') [a' + 1..b - 1]" .
      from scanDays_cons [OF na nx this] show ?thesis unfolding up .
    qed
  qed
  have "localMidnight zone a = (a, 0)" "localMidnight zone b = (b, 0)"
    by (simp_all add: localMidnight_def atLocalTime_def ga gb)
  with pre [OF order_refl ac] show ?thesis by simp
qed

lemma checkMaxConsecutive_fold:
  assumes p: "parseInt (er_value rule) = Some N"
    and v: "validDate (newDate (year ctx) (month ctx) 1 - N)"
           "validDate (newDate (year ctx) (month ctx + 1) 0)"
  shows "checkMaxConsecutiveWorkDays zone ctx rule =
     snd (scanDays zone (maxConsecutiveStep ctx (er_employee rule) N)
            (localMidnight zone (newDate (year ctx) (month ctx) 1 - N))
            (localMidnight zone (newDate (year ctx) (month ctx + 1) 0)) (0, 0, []))"
proof -
  have a: "newDate (year ctx) (month ctx) (1 - N) = newDate (year ctx) (month ctx) 1 - N"
    by (simp add: newDate_def)
  show ?thesis
    unfolding checkMaxConsecutiveWorkDays_def p option.case Let_def a
    using v by simp
qed

lemma checkMaxConsecutive_worked:
  assumes p: "parseInt (er_value rule) = Some N"
    and v: "validDate (newDate (year ctx) (month ctx) 1 - N)"
           "validDate (newDate (year ctx) (month ctx + 1) 0)"
    and g: "\<forall>d. newDate (year ctx) (month ctx) 1 - N \<le> d \<and> d \<le> newDate (year ctx) (month ctx + 1) 0
              \<longrightarrow> midnightGap zone d = 0"
  shows "checkMaxConsecutiveWorkDays zone ctx rule =
     (let e = er_employee rule;
          startDate = newDate (year ctx) (month ctx) 1 - N;
          endDate = newDate (year ctx) (month ctx + 1) 0;
          ds = filter (\<lambda>d. isWorking (scheduleData ctx) e d
                            \<and> int (streakOn (scheduleData ctx) e startDate d) > N
                            \<and> inMonth (year ctx) (month ctx) d) [startDate..endDate]
      in (length ds,
          map (\<lambda>d. Highlight d (ConsecutiveDays e (streakOn (scheduleData ctx) e startDate d) N)) ds))"
proof -
  define a where "a = newDate (year ctx) (month ctx) 1 - N"
  define b where "b = newDate (year ctx) (month ctx + 1) 0"
  have c: "checkMaxConsecutiveWorkDays zone ctx rule =
             snd (foldl (maxConsecutiveStep ctx (er_employee rule) N) (0, 0, []) [a..b])"
  proof (cases "b < a")
    case True
    then have "fst (localMidnight zone b) < fst (localMidnight zone a)"
      by (simp add: localMidnight_def atLocalTime_def)
    then show ?thesis
      unfolding checkMaxConsecutive_fold [OF p v] a_def [symmetric] b_def [symmetric]
      using True by (simp add: scanDays_past)
  next
    case False
    with g have "midnightGap zone a = 0" "midnightGap zone b = 0"
      unfolding a_def b_def by simp_all
    then have "localMidnight zone a = (a, 0)" "localMidnight zone b = (b, 0)"
      by (simp_all add: localMidnight_def atLocalTime_def)
    moreover from g have "\<forall>d. a \<le> d \<and> d \<le> b \<longrightarrow> midnightGap zone d = 0"
      unfolding a_def b_def .
    ultimately show ?thesis
      unfolding checkMaxConsecutive_fold [OF p v] a_def [symmetric] b_def [symmetric]
      by (simp add: scanDays_no_gap)
  qed
  have "snd (foldl (maxConsecutiveStep ctx (er_employee rule) N) (0, 0, []) [a..b]) =
     (let ds = filter (\<lambda>d. isWorking (scheduleData ctx) (er_employee rule) d
                            \<and> int (streakOn (scheduleData ctx) (er_employee rule) a d) > N
                            \<and> inMonth (year ctx) (month ctx) d) [a..b]
      in (length ds,
          map (\<lambda>d. Highlight d (ConsecutiveDays (er_employee rule)
                                   (streakOn (scheduleData ctx) (er_employee rule) a d) N)) ds))"
  proof (cases "b < a")
    case True
    then show ?thesis by simp
  next
    case False
    then have "b = a + int (nat (b - a))" by simp
    then obtain n where b: "b = a + int n" ..
    show ?thesis unfolding b maxConsecutive_fold by (simp add: Let_def)
  qed
  then show ?thesis unfolding c a_def b_def Let_def .
qed

lemma checkMaxConsecutive_eq:
  assumes p: "parseInt (er_value rule) = Some N" and N: "0 \<le> N"
    and v: "validDate (newDate (year ctx) (month ctx) 1 - N)"
           "validDate (newDate (year ctx) (month ctx + 1) 0)"
    and g: "\<forall>d. newDate (year ctx) (month ctx) 1 - N \<le> d \<and> d \<le> newDate (year ctx) (month ctx + 1) 0
              \<longrightarrow> midnightGap zone d = 0"
  shows "checkMaxConsecutiveWorkDays zone ctx rule =
     (let e = er_employee rule;
          startDate = newDate (year ctx) (month ctx) 1 - N;
          endDate = newDate (year ctx) (month ctx + 1) 0;
          ds = filter (\<lambda>d. int (streakOn (scheduleData ctx) e startDate d) > N
                            \<and> inMonth (year ctx) (month ctx) d) [startDate..endDate]
      in (length ds,
          map (\<lambda>d. Highlight d (ConsecutiveDays e (streakOn (scheduleData ctx) e startDate d) N)) ds))"
proof -
  define a where "a = newDate (year ctx) (month ctx) 1 - N"
  define b where "b = newDate (year ctx) (month ctx + 1) 0"
  define e where "e = er_employee rule"
  define sd where "sd = scheduleData ctx"
  have "filter (\<lambda>d. isWorking sd e d \<and> int (streakOn sd e a d) > N
                      \<and> inMonth (year ctx) (month ctx) d) [a..b]
          = filter (\<lambda>d. int (streakOn sd e a d) > N \<and> inMonth (year ctx) (month ctx) d) [a..b]"
  proof (rule filter_cong [OF refl])
    fix d assume "d \<in> set [a..b]"
    then have "a \<le> d" by simp
    with N streak_pos_working [of sd e a d]
    show "(isWorking sd e d \<and> int (streakOn sd e a d) > N \<and> inMonth (year ctx) (month ctx) d)
            = (int (streakOn sd e a d) > N \<and> inMonth (year ctx) (month ctx) d)"
      by auto
  qed
  then show ?thesis
    unfolding checkMaxConsecutive_worked [OF p v g] Let_def a_def b_def e_def sd_def by simp
qed

lemma four_day_streak:
  assumes w: "\<forall>d. ms - 3 \<le> d \<and> d \<le> b \<longrightarrow> isWorking sd e d = (ms \<le> d \<and> d \<le> ms + 3)"
  shows "ms - 3 + int k \<le> b \<Longrightarrow>
           streakFrom sd e (ms - 3) k = (if 3 \<le> k \<and> k \<le> 6 then k - 2 else 0)"
proof (induction k)
  case 0
  with w have "isWorking sd e (ms - 3) = (ms \<le> ms - 3 \<and> ms - 3 \<le> ms + 3)" by simp
  then show ?case by simp
next
  case (Suc k)
  then have ih: "streakFrom sd e (ms - 3) k = (if 3 \<le> k \<and> k \<le> 6 then k - 2 else 0)" by simp
  from Suc.prems w
  have "isWorking sd e (ms - 3 + int (Suc k))
          = (ms \<le> ms - 3 + int (Suc k) \<and> ms - 3 + int (Suc k) \<le> ms + 3)"
    by simp
  then have iw: "isWorking sd e (ms - 3 + int (Suc k)) = (2 \<le> k \<and> k \<le> 5)" by auto
  show ?case unfolding streakFrom.simps iw ih by auto
qed

lemma four_day_conflict:
  assumes A: "parseInt (er_value rule) = Some 3
        \<and> (\<forall>d. newDate (year ctx) (month ctx) 1 - 3 \<le> d \<and> d \<le> newDate (year ctx) (month ctx + 1) 0
              \<longrightarrow> isWorking (scheduleData ctx) (er_employee rule) d
                    = (newDate (year ctx) (month ctx) 1 \<le> d \<and> d \<le> newDate (year ctx) (month ctx) 4))"
    and v: "validDate (newDate (year ctx) (month ctx) 1 - 3)"
           "validDate (newDate (year ctx) (month ctx + 1) 0)"
    and g: "\<forall>d. newDate (year ctx) (month ctx) 1 - 3 \<le> d \<and> d \<le> newDate (year ctx) (month ctx + 1) 0
              \<longrightarrow> midnightGap zone d = 0"
  shows "checkMaxConsecutiveWorkDays zone ctx rule =
            (1, [Highlight (newDate (year ctx) (month ctx) 4) (ConsecutiveDays (er_employee rule) 4 3)])"
proof -
  define ms where "ms = newDate (year ctx) (month ctx) 1"
  define b where "b = newDate (year ctx) (month ctx + 1) 0"
  define e where "e = er_employee rule"
  define sd where "sd = scheduleData ctx"
  have m4: "newDate (year ctx) (month ctx) 4 = ms + 3"
    by (simp add: ms_def newDate_def)
  from A have p: "parseInt (er_value rule) = Some 3" by (rule conjunct1)
  from A have w: "\<forall>d. ms - 3 \<le> d \<and> d \<le> b \<longrightarrow> isWorking sd e d = (ms \<le> d \<and> d \<le> ms + 3)"
    unfolding m4 ms_def [symmetric] b_def [symmetric] e_def [symmetric] sd_def [symmetric]
    by (rule conjunct2)
  have len: "ms + 27 \<le> b"
    using daysInMonth_range [of "year ctx" "month ctx"]
    by (auto simp: daysInMonth_def ms_def b_def)
  have st: "streakOn sd e (ms - 3) d = (if ms \<le> d \<and> d \<le> ms + 3 then nat (d - ms + 1) else 0)"
    if "ms - 3 \<le> d" "d \<le> b" for d
  proof -
    from that have "ms - 3 + int (nat (d - (ms - 3))) \<le> b" by simp
    from four_day_streak [OF w this] that show ?thesis
      unfolding streakOn_def by auto
  qed
  have im: "inMonth (year ctx) (month ctx) d = (ms \<le> d \<and> d \<le> b)" for d
    by (simp add: inMonth_def ms_def b_def)
  have "filter (\<lambda>d. int (streakOn sd e (ms - 3) d) > 3 \<and> inMonth (year ctx) (month ctx) d) [ms - 3..b]
          = filter (\<lambda>d. d = ms + 3) [ms - 3..b]"
    by (rule filter_cong [OF refl]) (auto simp: st im)
  also have "\<dots> = [ms + 3]"
    using len by (intro filter_eq_singleton) simp_all
  finally have ds: "filter (\<lambda>d. int (streakOn sd e (ms - 3) d) > 3 \<and> inMonth (year ctx) (month ctx) d)
                      [ms - 3..b] = [ms + 3]" .
  have s4: "streakOn sd e (ms - 3) (ms + 3) = 4"
    using len by (subst st) simp_all
  have "checkMaxConsecutiveWorkDays zone ctx rule = (1, [Highlight (ms + 3) (ConsecutiveDays e 4 3)])"
    using checkMaxConsecutive_eq [OF p zero_le_numeral v g]
    unfolding Let_def ms_def [symmetric] b_def [symmetric] e_def [symmetric] sd_def [symmetric] ds
    by (simp add: s4)
  then show ?thesis
    unfolding m4 e_def .
qed

lemma parseInt_3: "parseInt (VStr ''3'') = Some 3"
  by (simp add: parseInt_def parseIntString_def isWhiteSpace_def isDigit_def digitsValue_def)

lemma sao_paulo_scan:
  "checkMaxConsecutiveWorkDays saoPaulo2018 lastFourDaysExample
       \<lparr>er_type = t, er_employee = ''A'', er_value = VNum 3\<rparr> = (0, [])"
proof -
  let ?r = "\<lparr>er_type = t, er_employee = ''A'', er_value = VNum 3\<rparr>"
  let ?body = "maxConsecutiveStep lastFourDaysExample ''A'' 3"
  have p: "parseInt (er_value ?r) = Some 3" by (simp add: parseInt_def)
  have a: "newDate (year lastFourDaysExample) (month lastFourDaysExample) 1 - 3 = 17833"
    and b: "newDate (year lastFourDaysExample) (month lastFourDaysExample + 1) 0 = 17865"
    by (simp_all add: lastFourDaysExample_def newDate_2018_10 newDate_2018_11)
  have v: "validDate (newDate (year lastFourDaysExample) (month lastFourDaysExample) 1 - 3)"
          "validDate (newDate (year lastFourDaysExample) (month lastFourDaysExample + 1) 0)"
    unfolding a b by (simp_all add: validDate_def)
  have g: "0 < midnightGap saoPaulo2018 17839"
    "\<forall>d. 17833 \<le> d \<and> d \<le> 17865 \<and> d \<noteq> 17839 \<longrightarrow> midnightGap saoPaulo2018 d = 0"
    by (simp_all add: saoPaulo2018_def newDate_2018_10)
  have scan: "scanDays saoPaulo2018 ?body (localMidnight saoPaulo2018 17833)
          (localMidnight saoPaulo2018 17865) (0, 0, []) = foldl ?body (0, 0, []) [17833..17865 - 1]"
    by (rule scanDays_gap [OF g(1) _ _ g(2)]) simp_all
  have w: "isWorking (scheduleData lastFourDaysExample) ''A'' d = (17862 \<le> d \<and> d \<le> 17865)" for d
    by (simp add: lastFourDaysExample_def isWorking_dayShifts newDate_2018_10)
  have im: "inMonth (year lastFourDaysExample) (month lastFourDaysExample) d = (17836 \<le> d \<and> d \<le> 17865)" for d
    by (simp add: inMonth_def lastFourDaysExample_def newDate_2018_10 newDate_2018_11)
  have "foldl ?body (0, 0, []) [17833..17864] = (3, 0, [])"
    by (simp add: maxConsecutiveStep_def w im)
  with scan have "snd (scanDays saoPaulo2018 ?body (localMidnight saoPaulo2018 17833)
          (localMidnight saoPaulo2018 17865) (0, 0, [])) = (0, [])" by simp
  then show ?thesis
    unfolding checkMaxConsecutive_fold [OF p v] a b by simp
qed

lemma last_day_streak:
  "streakOn (scheduleData lastFourDaysExample) ''A'' (newDate 2018 10 1 - 3) (newDate 2018 10 30) = 4"
proof -
  have w: "isWorking (scheduleData lastFourDaysExample) ''A'' d = (17862 \<le> d \<and> d \<le> 17865)" for d
    by (simp add: lastFourDaysExample_def isWorking_dayShifts newDate_2018_10)
  show ?thesis
    by (simp add: newDate_2018_10 streakOn_def eval_nat_numeral w)
qed

section \<open>Sorting and ranking\<close>










section \<open>The gap between two shifts\<close>

lemma getShiftPosition_weekday:
  "getShiftPosition s False =
     (if s = ''day'' then 0 else if s = ''evening'' then 1 else if s = ''night'' then 2 else - 1)"
  by (simp add: getShiftPosition_def WEEKDAY_SHIFT_ORDER_def)

lemma weekday_set:
  "(s \<in> set WEEKDAY_SHIFT_ORDER) = (s = ''day'' \<or> s = ''evening'' \<or> s = ''night'')"
  by (simp add: WEEKDAY_SHIFT_ORDER_def)

lemma shift_names_distinct:
  "''day'' \<noteq> ''evening''" "''day'' \<noteq> ''night''" "''evening'' \<noteq> ''night''"
  "''day'' \<noteq> ''off''" "''evening'' \<noteq> ''off''" "''night'' \<noteq> ''off''"
  by simp_all

lemma steps_weekday:
  "js_rem (p2 - p1 + int (length WEEKDAY_SHIFT_ORDER)) (int (length WEEKDAY_SHIFT_ORDER))
     = js_rem (p2 - p1 + 3) 3"
  by (simp add: WEEKDAY_SHIFT_ORDER_def)

lemma gap_day:
  "hasEnoughShiftGap ''day'' s2 False False = (s2 \<noteq> ''day'' \<and> s2 \<noteq> ''evening'')"
  unfolding hasEnoughShiftGap_def steps_weekday getShiftPosition_weekday [of s2] Let_def
  using shift_names_distinct
  by (simp add: getShiftPosition_weekday js_rem_def)

lemma gap_evening:
  "hasEnoughShiftGap ''evening'' s2 False False = (s2 \<noteq> ''evening'' \<and> s2 \<noteq> ''night'')"
  unfolding hasEnoughShiftGap_def steps_weekday getShiftPosition_weekday [of s2] Let_def
  using shift_names_distinct
  by (simp add: getShiftPosition_weekday js_rem_def)

lemma gap_night:
  "hasEnoughShiftGap ''night'' s2 False False = (s2 \<noteq> ''night'' \<and> s2 \<noteq> ''day'')"
  unfolding hasEnoughShiftGap_def steps_weekday getShiftPosition_weekday [of s2] Let_def
  using shift_names_distinct
  by (simp add: getShiftPosition_weekday js_rem_def)

lemma gap_exempt:
  "h1 \<noteq> h2 \<or> s1 = ''off'' \<or> s2 = ''off'' \<or> (h1 \<and> h2)
     \<or> s1 \<notin> set WEEKDAY_SHIFT_ORDER \<or> s2 \<notin> set WEEKDAY_SHIFT_ORDER
   \<Longrightarrow> hasEnoughShiftGap s1 s2 h1 h2"
  unfolding hasEnoughShiftGap_def Let_def weekday_set
  by (auto simp: getShiftPosition_weekday)

lemma gap_steps:
  "s1 \<in> set WEEKDAY_SHIFT_ORDER \<Longrightarrow> s2 \<in> set WEEKDAY_SHIFT_ORDER \<Longrightarrow>
     hasEnoughShiftGap s1 s2 False False
       = ((getShiftPosition s2 False - getShiftPosition s1 False + 3) mod 3 > 1)"
  unfolding weekday_set
  by (elim disjE; simp add: gap_day gap_evening gap_night; simp add: getShiftPosition_weekday)

text \<open>
  C2, as amended. \<open>hasEnoughShiftGap a b hA hB\<close> is true whenever the two holiday flags
  differ, or either shift is \<^verbatim>\<open>off\<close>, or both days are holidays, or either shift is not
  in the weekday order; for two weekday shifts on two weekdays it is true exactly when
  the forward cyclic distance \<open>(posB - posA + 3) mod 3\<close> is greater than 1. So the
  insufficient weekday pairs are the three one-step pairs day to evening, evening to
  night, night to day, and also the three pairs that repeat a shift (distance 0); the
  two-step pairs day to night, evening to day and night to evening are sufficient.
\<close>

theorem hasEnoughShiftGap_cases:
  "(isHoliday1 \<noteq> isHoliday2 \<or> shift1 = ''off'' \<or> shift2 = ''off'' \<or> (isHoliday1 \<and> isHoliday2)
      \<or> shift1 \<notin> set WEEKDAY_SHIFT_ORDER \<or> shift2 \<notin> set WEEKDAY_SHIFT_ORDER
      \<longrightarrow> hasEnoughShiftGap shift1 shift2 isHoliday1 isHoliday2)
   \<and> (\<not> isHoliday1 \<and> \<not> isHoliday2
        \<and> shift1 \<in> set WEEKDAY_SHIFT_ORDER \<and> shift2 \<in> set WEEKDAY_SHIFT_ORDER
      \<longrightarrow> hasEnoughShiftGap shift1 shift2 isHoliday1 isHoliday2
            = ((getShiftPosition shift2 False - getShiftPosition shift1 False + 3) mod 3 > 1))
   \<and> (\<not> hasEnoughShiftGap shift1 shift2 False False
        \<longleftrightarrow> (shift1, shift2) \<in> {(''day'', ''evening''), (''evening'', ''night''), (''night'', ''day''),
                                 (''day'', ''day''), (''evening'', ''evening''), (''night'', ''night'')})
   \<and> hasEnoughShiftGap ''day'' ''night'' False False
   \<and> hasEnoughShiftGap ''evening'' ''day'' False False
   \<and> hasEnoughShiftGap ''night'' ''evening'' False False"
proof (intro conjI impI)
  assume "isHoliday1 \<noteq> isHoliday2 \<or> shift1 = ''off'' \<or> shift2 = ''off'' \<or> (isHoliday1 \<and> isHoliday2)
      \<or> shift1 \<notin> set WEEKDAY_SHIFT_ORDER \<or> shift2 \<notin> set WEEKDAY_SHIFT_ORDER"
  then show "hasEnoughShiftGap shift1 shift2 isHoliday1 isHoliday2" by (rule gap_exempt)
next
  assume "\<not> isHoliday1 \<and> \<not> isHoliday2
        \<and> shift1 \<in> set WEEKDAY_SHIFT_ORDER \<and> shift2 \<in> set WEEKDAY_SHIFT_ORDER"
  then show "hasEnoughShiftGap shift1 shift2 isHoliday1 isHoliday2
            = ((getShiftPosition shift2 False - getShiftPosition shift1 False + 3) mod 3 > 1)"
    using gap_steps by simp
next
  show "(\<not> hasEnoughShiftGap shift1 shift2 False False)
        \<longleftrightarrow> (shift1, shift2) \<in> {(''day'', ''evening''), (''evening'', ''night''), (''night'', ''day''),
                                 (''day'', ''day''), (''evening'', ''evening''), (''night'', ''night'')}"
  proof (cases "shift1 \<in> set WEEKDAY_SHIFT_ORDER")
    case True
    then show ?thesis
      unfolding weekday_set
      by (elim disjE; simp add: gap_day gap_evening gap_night; blast)
  next
    case False
    then have "hasEnoughShiftGap shift1 shift2 False False" by (simp add: gap_exempt)
    moreover from False have "shift1 \<noteq> ''day''" "shift1 \<noteq> ''evening''" "shift1 \<noteq> ''night''"
      by (auto simp: weekday_set)
    ultimately show ?thesis by simp
  qed
qed (simp_all add: gap_day gap_evening gap_night)

theorem hasEnoughShiftGap_cases_witness:
  "hasEnoughShiftGap ''weekend-night'' ''day'' True False
   \<and> hasEnoughShiftGap ''evening'' ''night'' False False = ((2 - 1 + 3) mod 3 > (1::int))
   \<and> \<not> hasEnoughShiftGap ''evening'' ''night'' False False"
  using hasEnoughShiftGap_cases [of True False "''weekend-night''" "''day''"]
        hasEnoughShiftGap_cases [of False False "''evening''" "''night''"]
  by (simp add: getShiftPosition_weekday weekday_set)

text \<open>
  The claim as stated names day to evening, evening to night and night to day as the
  only insufficient weekday pairs; a day shift followed by a day shift is insufficient
  too.
\<close>

theorem same_shift_gap_counterexample:
  "\<not> hasEnoughShiftGap ''day'' ''day'' False False
   \<and> (''day'', ''day'') \<notin> {(''day'', ''evening''), (''evening'', ''night''), (''night'', ''day'')}"
  by (simp add: gap_day)

section \<open>Validation\<close>

lemma inherited_iff:
  "(map_of objectPrototype tag = None) = (tag \<notin> set objectPrototypeNames)"
  by (simp add: objectPrototypeNames_def map_of_eq_None_iff)

lemma getProperty_plain:
  "tag \<notin> set objectPrototypeNames \<Longrightarrow>
     getProperty registry tag = (case map_of registry tag of Some h \<Rightarrow> Own h | None \<Rightarrow> Missing)"
  by (simp add: getProperty_def inherited_iff [symmetric] split: option.split)

lemma runEmployeeRule_plain:
  assumes "er_type r \<notin> set objectPrototypeNames"
  shows "\<exists>log'. runEmployeeRule zone ctx (Inr (TNum n, log)) r =
           Inr (TNum (n + (if employeeRuleRegistered zone r then employeeRuleCount zone ctx r else 0)),
                log')"
  by (cases "map_of (employeeRuleHandlers zone) (er_type r)")
     (simp_all add: runEmployeeRule_def getProperty_plain [OF assms] callProperty_def
        employeeRuleRegistered_def employeeRuleCount_def addOutcome_def addTotal_def
        isStringLike_def)

lemma runEmployeeRule_fold:
  "list_all (\<lambda>r. er_type r \<notin> set objectPrototypeNames) rules \<Longrightarrow>
   \<exists>log'. foldl (runEmployeeRule zone ctx) (Inr (TNum n, log)) rules =
     Inr (TNum (n + sum_list (map (employeeRuleCount zone ctx)
                                (filter (employeeRuleRegistered zone) rules))), log')"
proof (induction rules arbitrary: n log)
  case Nil
  then show ?case by simp
next
  case (Cons r rules)
  then have "er_type r \<notin> set objectPrototypeNames"
    and rest: "list_all (\<lambda>r. er_type r \<notin> set objectPrototypeNames) rules" by simp_all
  from runEmployeeRule_plain [OF this(1)]
  obtain log1 where 1: "runEmployeeRule zone ctx (Inr (TNum n, log)) r =
           Inr (TNum (n + (if employeeRuleRegistered zone r then employeeRuleCount zone ctx r else 0)),
                log1)" by blast
  from Cons.IH [OF rest]
  obtain log2 where "foldl (runEmployeeRule zone ctx)
      (Inr (TNum (n + (if employeeRuleRegistered zone r then employeeRuleCount zone ctx r else 0)),
            log1)) rules =
     Inr (TNum (n + (if employeeRuleRegistered zone r then employeeRuleCount zone ctx r else 0)
                + sum_list (map (employeeRuleCount zone ctx)
                              (filter (employeeRuleRegistered zone) rules))), log2)" by blast
  then show ?case unfolding foldl.simps 1 by simp
qed

lemma runShiftRule_plain:
  assumes "sr_type r \<notin> set objectPrototypeNames"
  shows "\<exists>log'. runShiftRule ctx (Inr (TNum n, log)) r =
           Inr (TNum (n + (if shiftRuleRegistered r then shiftRuleCount ctx r else 0)), log')"
  by (cases "map_of shiftRuleHandlers (sr_type r)")
     (simp_all add: runShiftRule_def getProperty_plain [OF assms] callProperty_def
        shiftRuleRegistered_def shiftRuleCount_def addOutcome_def addTotal_def isStringLike_def)

lemma runShiftRule_fold:
  "list_all (\<lambda>r. sr_type r \<notin> set objectPrototypeNames) rules \<Longrightarrow>
   \<exists>log'. foldl (runShiftRule ctx) (Inr (TNum n, log)) rules =
     Inr (TNum (n + sum_list (map (shiftRuleCount ctx) (filter shiftRuleRegistered rules))), log')"
proof (induction rules arbitrary: n log)
  case Nil
  then show ?case by simp
next
  case (Cons r rules)
  then have "sr_type r \<notin> set objectPrototypeNames"
    and rest: "list_all (\<lambda>r. sr_type r \<notin> set objectPrototypeNames) rules" by simp_all
  from runShiftRule_plain [OF this(1)]
  obtain log1 where 1: "runShiftRule ctx (Inr (TNum n, log)) r =
           Inr (TNum (n + (if shiftRuleRegistered r then shiftRuleCount ctx r else 0)), log1)"
    by blast
  from Cons.IH [OF rest]
  obtain log2 where "foldl (runShiftRule ctx)
      (Inr (TNum (n + (if shiftRuleRegistered r then shiftRuleCount ctx r else 0)), log1)) rules =
     Inr (TNum (n + (if shiftRuleRegistered r then shiftRuleCount ctx r else 0)
                + sum_list (map (shiftRuleCount ctx) (filter shiftRuleRegistered rules))), log2)"
    by blast
  then show ?case unfolding foldl.simps 1 by simp
qed

lemma collectShift_plain:
  "list_all (\<lambda>s. shift s = ''off'' \<or> employee s \<notin> set objectPrototypeNames) shifts \<Longrightarrow>
     \<exists>es. foldl collectShift (Inr acc) shifts = Inr es"
proof (induction shifts arbitrary: acc)
  case Nil
  then show ?case by simp
next
  case (Cons s shifts)
  then have s: "shift s = ''off'' \<or> employee s \<notin> set objectPrototypeNames"
    and rest: "list_all (\<lambda>s. shift s = ''off'' \<or> employee s \<notin> set objectPrototypeNames) shifts"
    by simp_all
  from s have "\<exists>acc'. collectShift (Inr acc) s = Inr acc'"
    by (cases "shift s = ''off''") (simp_all add: collectShift_def)
  then obtain acc' where "collectShift (Inr acc) s = Inr acc'" ..
  with Cons.IH [OF rest, of acc'] show ?case by simp
qed

lemma duplicateDay_plain:
  assumes "list_all (\<lambda>s. shift s = ''off'' \<or> employee s \<notin> set objectPrototypeNames)
             (shiftsOn (scheduleData ctx) (newDate (year ctx) (month ctx) day))"
  shows "\<exists>st'. duplicateDay ctx (Inr st) day = Inr st'"
proof -
  from collectShift_plain [OF assms, of "[]"]
  obtain es where "collectShifts (shiftsOn (scheduleData ctx) (newDate (year ctx) (month ctx) day))
                     = Inr es"
    unfolding collectShifts_def by blast
  then show ?thesis by (simp add: duplicateDay_def Let_def)
qed

lemma checkDuplicate_plain:
  assumes "plainEmployees ctx"
  shows "\<exists>r. checkDuplicateAssignment ctx = Inr r"
proof -
  have "\<exists>st'. foldl (duplicateDay ctx) (Inr st) days = Inr st'"
    if "list_all (\<lambda>day. list_all (\<lambda>s. shift s = ''off'' \<or> employee s \<notin> set objectPrototypeNames)
                          (shiftsOn (scheduleData ctx) (newDate (year ctx) (month ctx) day))) days"
    for days st
    using that
  proof (induction days arbitrary: st)
    case Nil
    then show ?case by simp
  next
    case (Cons day days)
    then have d: "list_all (\<lambda>s. shift s = ''off'' \<or> employee s \<notin> set objectPrototypeNames)
                    (shiftsOn (scheduleData ctx) (newDate (year ctx) (month ctx) day))"
      and rest: "list_all (\<lambda>day. list_all (\<lambda>s. shift s = ''off'' \<or> employee s \<notin> set objectPrototypeNames)
                          (shiftsOn (scheduleData ctx) (newDate (year ctx) (month ctx) day))) days"
      by simp_all
    from duplicateDay_plain [OF d, of st]
    obtain st1 where "duplicateDay ctx (Inr st) day = Inr st1" by blast
    with Cons.IH [OF rest, of st1] show ?case by simp
  qed
  moreover from assms
  have "list_all (\<lambda>day. list_all (\<lambda>s. shift s = ''off'' \<or> employee s \<notin> set objectPrototypeNames)
                          (shiftsOn (scheduleData ctx) (newDate (year ctx) (month ctx) day)))
          [1..daysInMonth (year ctx) (month ctx)]"
    by (simp add: plainEmployees_def monthDays_def list_all_iff)
  ultimately show ?thesis unfolding checkDuplicateAssignment_def by blast
qed

lemma system_fold:
  assumes "plainEmployees ctx"
  shows "\<exists>log'. foldl (runSystemRule ctx) (Inr (TNum n, log)) (map snd systemRuleHandlers) =
     Inr (TNum (n + sum_list (map (systemRuleCount ctx) (map snd systemRuleHandlers))), log')"
proof -
  from checkDuplicate_plain [OF assms]
  obtain r where "checkDuplicateAssignment ctx = Inr r" by blast
  then show ?thesis
    by (simp add: systemRuleHandlers_def runSystemRule_def systemRuleCount_def addOutcome_def
          addTotal_def isStringLike_def)
qed

lemma validate_total:
  assumes t: "plainTags p" and e: "plainEmployees (makeContext p)"
  shows "returnedValidation (validate zone p) =
           Some \<lparr>totalConflicts = TNum (handlerSum zone p), isValid = (handlerSum zone p = 0)\<rparr>"
proof -
  define ctx where "ctx = makeContext p"
  define n1 where "n1 = sum_list (map (employeeRuleCount zone ctx)
                     (filter (employeeRuleRegistered zone) (configuredEmployeeRules p)))"
  define n2 where "n2 = sum_list (map (shiftRuleCount ctx)
                       (filter shiftRuleRegistered (configuredShiftRules p)))"
  define n3 where "n3 = sum_list (map (systemRuleCount ctx) (map snd systemRuleHandlers))"
  define st1 where "st1 = (case employeeRules (p_schedulingConditions p) of
                   None \<Rightarrow> Inr (TNum 0, [ClearHighlights])
                 | Some rules \<Rightarrow> foldl (runEmployeeRule zone ctx) (Inr (TNum 0, [ClearHighlights])) rules)"
  define st2 where "st2 = (case shiftRules (p_schedulingConditions p) of
                   None \<Rightarrow> st1
                 | Some rules \<Rightarrow> foldl (runShiftRule ctx) st1 rules)"
  define st3 where "st3 = foldl (runSystemRule ctx) st2 (map snd systemRuleHandlers)"
  have v: "validate zone p =
             (case st3 of
                Inl err \<Rightarrow> Inl err
              | Inr (conflicts, log) \<Rightarrow>
                  Inr (\<lparr>totalConflicts = conflicts, isValid = (conflicts = TNum 0)\<rparr>,
                       log @ [if conflicts = TNum 0 then AlertNoConflicts
                              else AlertConflicts conflicts]))"
    unfolding validate_def Let_def st3_def st2_def st1_def ctx_def ..
  from t have t1: "list_all (\<lambda>r. er_type r \<notin> set objectPrototypeNames) (configuredEmployeeRules p)"
    and t2: "list_all (\<lambda>r. sr_type r \<notin> set objectPrototypeNames) (configuredShiftRules p)"
    by (simp_all add: plainTags_def)
  obtain log1 where 1: "st1 = Inr (TNum n1, log1)"
  proof (cases "employeeRules (p_schedulingConditions p)")
    case None
    then have "st1 = Inr (TNum n1, [ClearHighlights])"
      by (simp add: st1_def n1_def configuredEmployeeRules_def)
    then show ?thesis by (rule that)
  next
    case (Some rules)
    with t1 have "list_all (\<lambda>r. er_type r \<notin> set objectPrototypeNames) rules"
      by (simp add: configuredEmployeeRules_def)
    from runEmployeeRule_fold [OF this, of zone ctx 0 "[ClearHighlights]"]
    obtain l where "foldl (runEmployeeRule zone ctx) (Inr (TNum 0, [ClearHighlights])) rules =
       Inr (TNum (0 + sum_list (map (employeeRuleCount zone ctx)
                                (filter (employeeRuleRegistered zone) rules))), l)" by blast
    with Some have "st1 = Inr (TNum n1, l)"
      by (simp add: st1_def n1_def configuredEmployeeRules_def)
    then show ?thesis by (rule that)
  qed
  obtain log2 where 2: "st2 = Inr (TNum (n1 + n2), log2)"
  proof (cases "shiftRules (p_schedulingConditions p)")
    case None
    then have "st2 = Inr (TNum (n1 + n2), log1)"
      by (simp add: st2_def 1 n2_def configuredShiftRules_def)
    then show ?thesis by (rule that)
  next
    case (Some rules)
    with t2 have "list_all (\<lambda>r. sr_type r \<notin> set objectPrototypeNames) rules"
      by (simp add: configuredShiftRules_def)
    from runShiftRule_fold [OF this, of ctx n1 log1]
    obtain l where "foldl (runShiftRule ctx) (Inr (TNum n1, log1)) rules =
       Inr (TNum (n1 + sum_list (map (shiftRuleCount ctx) (filter shiftRuleRegistered rules))), l)"
      by blast
    with Some have "st2 = Inr (TNum (n1 + n2), l)"
      by (simp add: st2_def 1 n2_def configuredShiftRules_def)
    then show ?thesis by (rule that)
  qed
  from system_fold [OF e [folded ctx_def], of "n1 + n2" log2]
  obtain log3 where 3: "st3 = Inr (TNum (n1 + n2 + n3), log3)"
    unfolding st3_def 2 n3_def by blast
  have h: "handlerSum zone p = n1 + n2 + n3"
    by (simp add: handlerSum_def Let_def n1_def n2_def n3_def ctx_def)
  show ?thesis unfolding v 3 h by (simp add: returnedValidation_def)
qed

lemma collectShifts_single:
  assumes "length xs \<le> 1"
    and "list_all (\<lambda>s. shift s = ''off'' \<or> employee s \<notin> set objectPrototypeNames) xs"
  shows "\<exists>es. collectShifts xs = Inr es \<and> list_all (\<lambda>entry. length (snd entry) \<le> 1) es"
proof (cases xs)
  case Nil
  then show ?thesis by (simp add: collectShifts_def)
next
  case (Cons s rest)
  with assms have "rest = []" by simp
  with Cons assms(2) show ?thesis
    by (auto simp: collectShifts_def collectShift_def)
qed

lemma set_objectEntries: "set (objectEntries es) = set es"
  by (auto simp: objectEntries_def)

lemma duplicateEntry_fold:
  "list_all (\<lambda>entry. length (snd entry) \<le> 1) entries \<Longrightarrow>
     foldl (duplicateEntry d) st entries = st"
  by (induction entries) (auto simp: duplicateEntry_def split: prod.splits)

lemma no_duplicates:
  assumes "\<forall>d. length (shiftsOn (scheduleData ctx) d) \<le> 1
             \<and> list_all (\<lambda>s. shift s = ''off'' \<or> employee s \<notin> set objectPrototypeNames)
                  (shiftsOn (scheduleData ctx) d)"
  shows "checkDuplicateAssignment ctx = Inr (0, [])"
proof -
  have step: "duplicateDay ctx (Inr st) day = Inr st" for st day
  proof -
    from assms collectShifts_single
    obtain es where c: "collectShifts (shiftsOn (scheduleData ctx) (newDate (year ctx) (month ctx) day))
                          = Inr es"
      and l: "list_all (\<lambda>entry. length (snd entry) \<le> 1) es" by blast
    from l have "list_all (\<lambda>entry. length (snd entry) \<le> 1) (objectEntries es)"
      by (simp add: list_all_iff set_objectEntries)
    then show ?thesis by (simp add: duplicateDay_def Let_def c duplicateEntry_fold)
  qed
  have "foldl (duplicateDay ctx) (Inr st) days = Inr st" for st days
    by (induction days) (simp_all add: step)
  then show ?thesis by (simp add: checkDuplicateAssignment_def)
qed

lemma makeContext_fourDayParams: "makeContext fourDayParams = fourDayExample"
  by (simp add: makeContext_def fourDayParams_def fourDayExample_def)

lemma fourDayExample_conflict:
  "checkMaxConsecutiveWorkDays utcZone fourDayExample
       \<lparr>er_type = t, er_employee = ''A'', er_value = VStr ''3''\<rparr>
     = (1, [Highlight (newDate 2024 0 4) (ConsecutiveDays ''A'' 4 3)])"
proof -
  have "checkMaxConsecutiveWorkDays utcZone fourDayExample
       \<lparr>er_type = t, er_employee = ''A'', er_value = VStr ''3''\<rparr>
     = (1, [Highlight (newDate (year fourDayExample) (month fourDayExample) 4)
              (ConsecutiveDays (er_employee \<lparr>er_type = t, er_employee = ''A'', er_value = VStr ''3''\<rparr>) 4 3)])"
    by (rule four_day_conflict)
       (simp_all add: parseInt_3 fourDayExample_def isWorking_dayShifts validDate_def utcZone_def
          newDate_2024_0 newDate_2024_1)
  then show ?thesis by (simp add: fourDayExample_def)
qed

lemma registered_tags:
  "map_of (employeeRuleHandlers zone) ''maxWeeklyHours'' = None"
  "map_of (employeeRuleHandlers zone) ''maxConsecutiveWorkDays''
     = Some (checkMaxConsecutiveWorkDays zone)"
  "map_of (employeeRuleHandlers zone) ''constructor'' = None"
  "map_of (employeeRuleHandlers zone) ''__proto__'' = None"
  by (simp_all add: employeeRuleHandlers_def)

lemma plain_names:
  "''maxWeeklyHours'' \<notin> set objectPrototypeNames"
  "''maxConsecutiveWorkDays'' \<notin> set objectPrototypeNames"
  "''A'' \<notin> set objectPrototypeNames"
  by (simp_all add: objectPrototypeNames_def objectPrototype_def)

lemma inherited_members:
  "map_of objectPrototype ''constructor'' = Some (Returns RObject)"
  "map_of objectPrototype ''__proto__'' = Some (Throws TypeError)"
  by (simp_all add: objectPrototype_def)

lemma decimal_0: "decimal 0 = ''0''"
  by (simp add: decimal.simps [of 0])

lemma emptyContext:
  "makeContext (inheritedTagParams tag) =
     \<lparr>scheduleData = Map.empty, year = 2024, month = 0, shiftTypes = Map.empty,
      employeeAvailability = None, holidayDates = None\<rparr>"
  by (simp add: makeContext_def inheritedTagParams_def)

lemma empty_calendar:
  "checkEmployeeAvailability (makeContext (inheritedTagParams tag)) = (0, [])"
  "checkDuplicateAssignment (makeContext (inheritedTagParams tag)) = Inr (0, [])"
proof -
  show "checkEmployeeAvailability (makeContext (inheritedTagParams tag)) = (0, [])"
    unfolding emptyContext by (simp add: checkEmployeeAvailability_def)
  show "checkDuplicateAssignment (makeContext (inheritedTagParams tag)) = Inr (0, [])"
    unfolding emptyContext by (rule no_duplicates) (simp add: shiftsOn_def)
qed

lemma inherited_rule:
  "employeeRules (p_schedulingConditions (inheritedTagParams tag))
     = Some [\<lparr>er_type = tag, er_employee = ''A'', er_value = VNum 3\<rparr>]"
  "shiftRules (p_schedulingConditions (inheritedTagParams tag)) = None"
  by (simp_all add: inheritedTagParams_def)

lemma system_run:
  assumes "checkEmployeeAvailability ctx = (0, [])" "checkDuplicateAssignment ctx = Inr (0, [])"
  shows "foldl (runSystemRule ctx) (Inr (t, log)) (map snd systemRuleHandlers)
           = Inr (addTotal (addTotal t (RNumber 0)) (RNumber 0), log)"
  by (simp add: systemRuleHandlers_def runSystemRule_def addOutcome_def assms)

lemma system_run_thrown:
  "foldl (runSystemRule ctx) (Inl err) hs = Inl err"
  by (induction hs) (simp_all add: runSystemRule_def)

lemma constructor_rule:
  "runEmployeeRule zone ctx (Inr (TNum 0, log))
       \<lparr>er_type = ''constructor'', er_employee = ''A'', er_value = VNum 3\<rparr>
     = Inr (TStr ''0[object Object]'', log)"
  by (simp add: runEmployeeRule_def getProperty_def registered_tags inherited_members
        callProperty_def addTotal_def isStringLike_def returnedToString_def decimal_0)

lemma proto_rule:
  "runEmployeeRule zone ctx (Inr (TNum 0, log))
       \<lparr>er_type = ''__proto__'', er_employee = ''A'', er_value = VNum 3\<rparr>
     = Inl (TypeError, log)"
  by (simp add: runEmployeeRule_def getProperty_def registered_tags inherited_members
        callProperty_def)

lemma constructor_run:
  "validate zone (inheritedTagParams ''constructor'') =
     Inr (\<lparr>totalConflicts = TStr ''0[object Object]00'', isValid = False\<rparr>,
          [ClearHighlights, AlertConflicts (TStr ''0[object Object]00'')])"
  unfolding validate_def Let_def inherited_rule option.case foldl.simps constructor_rule
    system_run [OF empty_calendar]
  by (simp add: addTotal_def returnedToString_def decimal_0)

lemma proto_run:
  "validate zone (inheritedTagParams ''__proto__'') = Inl (TypeError, [ClearHighlights])"
  unfolding validate_def Let_def inherited_rule option.case foldl.simps proto_rule
    system_run_thrown
  by simp

text \<open>
  C1. The object \<open>validate\<close> returns is to have \<open>isValid = (totalConflicts = 0)\<close>, with
  \<open>totalConflicts\<close> the sum of the counts returned by the handlers of the configured
  employee rules and of the configured shift rules whose type tag has a handler in the
  registry, plus the counts of all system-rule handlers, which run whatever is
  configured; and a configured rule whose tag has no registered handler is to
  contribute nothing and to raise no error.

  The validation does so when no tag of a configured rule, and no employee with a
  shift in the month, has the name of a member that every object inherits from
  \<^verbatim>\<open>Object.prototype\<close>: it returns, the total is that sum, and a rule whose tag is not
  registered leaves the running total and the findings as they are. A tag with such a
  name has no registered handler and is not skipped: the lookup finds the inherited
  member and the code calls it. With the one rule tagged \<^verbatim>\<open>constructor\<close> on an empty
  calendar the total is the string \<^verbatim>\<open>0[object Object]00\<close> and the run is reported
  invalid; with the tag \<^verbatim>\<open>__proto__\<close> the call throws a \<^verbatim>\<open>TypeError\<close>.
\<close>

theorem validate_sums_handlers:
  "(plainTags p \<and> plainEmployees (makeContext p) \<longrightarrow>
      returnedValidation (validate zone p) =
        Some \<lparr>totalConflicts = TNum (handlerSum zone p), isValid = (handlerSum zone p = 0)\<rparr>)
   \<and> (\<not> employeeRuleRegistered zone rule \<and> er_type rule \<notin> set objectPrototypeNames
        \<longrightarrow> runEmployeeRule zone ctx (Inr st) rule = Inr st)
   \<and> (\<not> shiftRuleRegistered srule \<and> sr_type srule \<notin> set objectPrototypeNames
        \<longrightarrow> runShiftRule ctx (Inr st) srule = Inr st)
   \<and> \<not> employeeRuleRegistered zone
          \<lparr>er_type = ''constructor'', er_employee = ''A'', er_value = VNum 3\<rparr>
   \<and> validate zone (inheritedTagParams ''constructor'') =
        Inr (\<lparr>totalConflicts = TStr ''0[object Object]00'', isValid = False\<rparr>,
             [ClearHighlights, AlertConflicts (TStr ''0[object Object]00'')])
   \<and> \<not> employeeRuleRegistered zone
          \<lparr>er_type = ''__proto__'', er_employee = ''A'', er_value = VNum 3\<rparr>
   \<and> validate zone (inheritedTagParams ''__proto__'') = Inl (TypeError, [ClearHighlights])"
proof (intro conjI impI)
  assume "plainTags p \<and> plainEmployees (makeContext p)"
  then show "returnedValidation (validate zone p) =
        Some \<lparr>totalConflicts = TNum (handlerSum zone p), isValid = (handlerSum zone p = 0)\<rparr>"
    by (simp add: validate_total)
next
  assume "\<not> employeeRuleRegistered zone rule \<and> er_type rule \<notin> set objectPrototypeNames"
  then show "runEmployeeRule zone ctx (Inr st) rule = Inr st"
    by (simp add: employeeRuleRegistered_def runEmployeeRule_def getProperty_plain
          callProperty_def)
next
  assume "\<not> shiftRuleRegistered srule \<and> sr_type srule \<notin> set objectPrototypeNames"
  then show "runShiftRule ctx (Inr st) srule = Inr st"
    by (simp add: shiftRuleRegistered_def runShiftRule_def getProperty_plain callProperty_def)
next
  show "\<not> employeeRuleRegistered zone
          \<lparr>er_type = ''constructor'', er_employee = ''A'', er_value = VNum 3\<rparr>"
    by (simp add: employeeRuleRegistered_def registered_tags)
next
  show "validate zone (inheritedTagParams ''constructor'') =
        Inr (\<lparr>totalConflicts = TStr ''0[object Object]00'', isValid = False\<rparr>,
             [ClearHighlights, AlertConflicts (TStr ''0[object Object]00'')])"
    by (rule constructor_run)
next
  show "\<not> employeeRuleRegistered zone
          \<lparr>er_type = ''__proto__'', er_employee = ''A'', er_value = VNum 3\<rparr>"
    by (simp add: employeeRuleRegistered_def registered_tags)
next
  show "validate zone (inheritedTagParams ''__proto__'') = Inl (TypeError, [ClearHighlights])"
    by (rule proto_run)
qed

text \<open>
  January 2024 with day shifts on the first four days, a rule with an unknown tag and
  the rule of at most three consecutive work days: the unknown rule is skipped and the
  total is the one conflict of the other rule.
\<close>

theorem validate_sums_handlers_witness:
  "returnedValidation (validate utcZone fourDayParams)
     = Some \<lparr>totalConflicts = TNum 1, isValid = False\<rparr>
   \<and> runEmployeeRule utcZone fourDayExample (Inr (TNum 0, []))
        \<lparr>er_type = ''maxWeeklyHours'', er_employee = ''A'', er_value = VNum 40\<rparr>
       = Inr (TNum 0, [])"
proof -
  let ?u = "\<lparr>er_type = ''maxWeeklyHours'', er_employee = ''A'', er_value = VNum 40\<rparr>"
  let ?m = "\<lparr>er_type = ''maxConsecutiveWorkDays'', er_employee = ''A'', er_value = VStr ''3''\<rparr>"
  have u: "\<not> employeeRuleRegistered utcZone ?u \<and> er_type ?u \<notin> set objectPrototypeNames"
    by (simp add: employeeRuleRegistered_def registered_tags plain_names)
  have m: "employeeRuleRegistered utcZone ?m"
    by (simp add: employeeRuleRegistered_def registered_tags)
  have cm: "employeeRuleCount utcZone fourDayExample ?m = 1"
    by (simp add: employeeRuleCount_def registered_tags fourDayExample_conflict)
  have er: "configuredEmployeeRules fourDayParams = [?u, ?m]"
    by (simp add: configuredEmployeeRules_def fourDayParams_def)
  have sr: "configuredShiftRules fourDayParams = []"
    by (simp add: configuredShiftRules_def fourDayParams_def)
  have sh: "shiftsOn (scheduleData fourDayExample) d = [] \<or>
            shiftsOn (scheduleData fourDayExample) d = [\<lparr>employee = ''A'', shift = ''day''\<rparr>]" for d
    by (simp add: fourDayExample_def shiftsOn_def dayShiftsFromTo_def)
  have pl: "list_all (\<lambda>s. shift s = ''off'' \<or> employee s \<notin> set objectPrototypeNames)
              (shiftsOn (scheduleData fourDayExample) d)" for d
    using sh [of d] by (auto simp: plain_names)
  have av: "checkEmployeeAvailability fourDayExample = (0, [])"
    by (simp add: checkEmployeeAvailability_def fourDayExample_def)
  have du: "checkDuplicateAssignment fourDayExample = Inr (0, [])"
  proof (rule no_duplicates, intro allI conjI)
    fix d show "length (shiftsOn (scheduleData fourDayExample) d) \<le> 1"
      using sh [of d] by auto
    show "list_all (\<lambda>s. shift s = ''off'' \<or> employee s \<notin> set objectPrototypeNames)
              (shiftsOn (scheduleData fourDayExample) d)"
      by (rule pl)
  qed
  have hs: "handlerSum utcZone fourDayParams = 1"
    unfolding handlerSum_def Let_def makeContext_fourDayParams er sr
    by (simp add: u m cm systemRuleHandlers_def systemRuleCount_def av du)
  have pt: "plainTags fourDayParams"
    unfolding plainTags_def er sr by (simp add: plain_names)
  have pe: "plainEmployees (makeContext fourDayParams)"
    unfolding makeContext_fourDayParams plainEmployees_def list_all_iff
    using pl by (simp add: list_all_iff)
  from validate_sums_handlers
         [where p = fourDayParams and zone = utcZone and rule = ?u and ctx = fourDayExample
            and st = "(TNum 0, [])"]
       pt pe u
  show ?thesis unfolding hs by simp
qed

section \<open>The consecutive-days rule\<close>

lemma wholeDays_facts:
  assumes "wholeDays zone ctx N"
  shows "validDate (newDate (year ctx) (month ctx) 1 - N)"
    and "validDate (newDate (year ctx) (month ctx + 1) 0)"
    and "\<forall>d. newDate (year ctx) (month ctx) 1 - N \<le> d \<and> d \<le> newDate (year ctx) (month ctx + 1) 0
           \<longrightarrow> midnightGap zone d = 0"
  using assms by (simp_all add: wholeDays_def Let_def list_all_iff)

text \<open>
  C3. With a value that \<^verbatim>\<open>parseInt\<close> reads as the number \<open>N\<close>,
  \<open>checkMaxConsecutiveWorkDays\<close> is to scan the days from \<open>N\<close> days before the first day
  of the target month to the last day of the month, keeping the running streak
  \<open>streakOn\<close> of worked days, and to record one conflict, with one finding on that day,
  for each day of the scan whose streak exceeds \<open>N\<close> and which lies in the target month.

  The loop steps one \<^verbatim>\<open>Date\<close> from day to day and compares instants. Where every day
  of the scan has a local midnight it does what is asked: it records one conflict for
  each worked day of the scan whose streak exceeds \<open>N\<close> and which lies in the month,
  and nothing else; for \<open>N \<ge> 0\<close> a streak above \<open>N\<close> is a worked day, so these are the
  days of the month whose streak exceeds \<open>N\<close>; and with the threshold 3 and an employee
  who, from three days before the month to its end, works exactly the first four days
  of the month, there is exactly one conflict, on day 4, where the streak is 4. (The
  two ends of the scan being dates keeps \<open>N\<close> far below \<open>2^53\<close>, where \<^verbatim>\<open>parseInt\<close> is
  exact.)

  Where a day of the scan has no local midnight the loop stays one hour late from that
  day on and leaves before the last day of the month. In the zone of Sao Paulo, where
  4 November 2018 began at 01:00, an employee who works the last four days of
  November 2018 has a streak of 4 on the 30th, which is above the threshold 3 and in
  the month, and the handler returns no conflict.
\<close>

theorem max_consecutive_conflicts:
  "(parseInt (er_value rule) = Some N \<and> wholeDays zone ctx N \<longrightarrow>
      (let e = er_employee rule;
           startDate = newDate (year ctx) (month ctx) 1 - N;
           endDate = newDate (year ctx) (month ctx + 1) 0;
           ds = filter (\<lambda>d. isWorking (scheduleData ctx) e d
                             \<and> int (streakOn (scheduleData ctx) e startDate d) > N
                             \<and> inMonth (year ctx) (month ctx) d) [startDate..endDate]
       in checkMaxConsecutiveWorkDays zone ctx rule =
            (length ds,
             map (\<lambda>d. Highlight d (ConsecutiveDays e (streakOn (scheduleData ctx) e startDate d) N))
               ds)))
   \<and> (parseInt (er_value rule) = Some N \<and> wholeDays zone ctx N \<and> 0 \<le> N \<longrightarrow>
      (let e = er_employee rule;
           startDate = newDate (year ctx) (month ctx) 1 - N;
           endDate = newDate (year ctx) (month ctx + 1) 0;
           ds = filter (\<lambda>d. int (streakOn (scheduleData ctx) e startDate d) > N
                             \<and> inMonth (year ctx) (month ctx) d) [startDate..endDate]
       in checkMaxConsecutiveWorkDays zone ctx rule =
            (length ds,
             map (\<lambda>d. Highlight d (ConsecutiveDays e (streakOn (scheduleData ctx) e startDate d) N))
               ds)))
   \<and> (parseInt (er_value rule) = Some 3 \<and> wholeDays zone ctx 3
        \<and> (\<forall>d. newDate (year ctx) (month ctx) 1 - 3 \<le> d \<and> d \<le> newDate (year ctx) (month ctx + 1) 0
              \<longrightarrow> isWorking (scheduleData ctx) (er_employee rule) d
                    = (newDate (year ctx) (month ctx) 1 \<le> d \<and> d \<le> newDate (year ctx) (month ctx) 4))
      \<longrightarrow> checkMaxConsecutiveWorkDays zone ctx rule =
            (1, [Highlight (newDate (year ctx) (month ctx) 4) (ConsecutiveDays (er_employee rule) 4 3)]))
   \<and> checkMaxConsecutiveWorkDays saoPaulo2018 lastFourDaysExample
        \<lparr>er_type = ''maxConsecutiveWorkDays'', er_employee = ''A'', er_value = VNum 3\<rparr> = (0, [])
   \<and> int (streakOn (scheduleData lastFourDaysExample) ''A'' (newDate 2018 10 1 - 3)
             (newDate 2018 10 30)) > 3
   \<and> inMonth 2018 10 (newDate 2018 10 30)
   \<and> \<not> wholeDays saoPaulo2018 lastFourDaysExample 3"
proof (intro conjI impI)
  assume "parseInt (er_value rule) = Some N \<and> wholeDays zone ctx N"
  then have p: "parseInt (er_value rule) = Some N" and w: "wholeDays zone ctx N" by simp_all
  show "let e = er_employee rule;
           startDate = newDate (year ctx) (month ctx) 1 - N;
           endDate = newDate (year ctx) (month ctx + 1) 0;
           ds = filter (\<lambda>d. isWorking (scheduleData ctx) e d
                             \<and> int (streakOn (scheduleData ctx) e startDate d) > N
                             \<and> inMonth (year ctx) (month ctx) d) [startDate..endDate]
       in checkMaxConsecutiveWorkDays zone ctx rule =
            (length ds,
             map (\<lambda>d. Highlight d (ConsecutiveDays e (streakOn (scheduleData ctx) e startDate d) N))
               ds)"
    using checkMaxConsecutive_worked [OF p wholeDays_facts [OF w]] unfolding Let_def .
next
  assume "parseInt (er_value rule) = Some N \<and> wholeDays zone ctx N \<and> 0 \<le> N"
  then have p: "parseInt (er_value rule) = Some N" and w: "wholeDays zone ctx N"
    and N: "0 \<le> N" by simp_all
  show "let e = er_employee rule;
           startDate = newDate (year ctx) (month ctx) 1 - N;
           endDate = newDate (year ctx) (month ctx + 1) 0;
           ds = filter (\<lambda>d. int (streakOn (scheduleData ctx) e startDate d) > N
                             \<and> inMonth (year ctx) (month ctx) d) [startDate..endDate]
       in checkMaxConsecutiveWorkDays zone ctx rule =
            (length ds,
             map (\<lambda>d. Highlight d (ConsecutiveDays e (streakOn (scheduleData ctx) e startDate d) N))
               ds)"
    using checkMaxConsecutive_eq [OF p N wholeDays_facts [OF w]] unfolding Let_def .
next
  assume A: "parseInt (er_value rule) = Some 3 \<and> wholeDays zone ctx 3
        \<and> (\<forall>d. newDate (year ctx) (month ctx) 1 - 3 \<le> d \<and> d \<le> newDate (year ctx) (month ctx + 1) 0
              \<longrightarrow> isWorking (scheduleData ctx) (er_employee rule) d
                    = (newDate (year ctx) (month ctx) 1 \<le> d \<and> d \<le> newDate (year ctx) (month ctx) 4))"
  then have w: "wholeDays zone ctx 3" by simp
  from A have "parseInt (er_value rule) = Some 3
        \<and> (\<forall>d. newDate (year ctx) (month ctx) 1 - 3 \<le> d \<and> d \<le> newDate (year ctx) (month ctx + 1) 0
              \<longrightarrow> isWorking (scheduleData ctx) (er_employee rule) d
                    = (newDate (year ctx) (month ctx) 1 \<le> d \<and> d \<le> newDate (year ctx) (month ctx) 4))"
    by blast
  then show "checkMaxConsecutiveWorkDays zone ctx rule =
            (1, [Highlight (newDate (year ctx) (month ctx) 4) (ConsecutiveDays (er_employee rule) 4 3)])"
    using wholeDays_facts [OF w] by (rule four_day_conflict)
next
  show "checkMaxConsecutiveWorkDays saoPaulo2018 lastFourDaysExample
        \<lparr>er_type = ''maxConsecutiveWorkDays'', er_employee = ''A'', er_value = VNum 3\<rparr> = (0, [])"
    by (rule sao_paulo_scan)
next
  show "int (streakOn (scheduleData lastFourDaysExample) ''A'' (newDate 2018 10 1 - 3)
             (newDate 2018 10 30)) > 3"
    by (simp add: last_day_streak)
next
  show "inMonth 2018 10 (newDate 2018 10 30)"
    by (simp add: inMonth_def newDate_2018_10 newDate_2018_11)
next
  have "17839 \<in> set [17833..17865::int]" by simp
  moreover have "midnightGap saoPaulo2018 17839 \<noteq> 0"
    by (simp add: saoPaulo2018_def newDate_2018_10)
  ultimately have "\<not> list_all (\<lambda>d. midnightGap saoPaulo2018 d = 0) [17833..17865]"
    unfolding list_all_iff by blast
  then show "\<not> wholeDays saoPaulo2018 lastFourDaysExample 3"
    by (simp add: wholeDays_def Let_def lastFourDaysExample_def newDate_2018_10 newDate_2018_11)
qed

text \<open>
  The example of the specification in a zone whose days all begin at 00:00: January
  2024, the threshold 3 and day shifts on the first four days give one conflict, on
  the 4th.
\<close>

theorem max_consecutive_conflicts_witness:
  "checkMaxConsecutiveWorkDays utcZone fourDayExample
       \<lparr>er_type = ''maxConsecutiveWorkDays'', er_employee = ''A'', er_value = VStr ''3''\<rparr>
     = (1, [Highlight (newDate 2024 0 4) (ConsecutiveDays ''A'' 4 3)])"
proof -
  let ?r = "\<lparr>er_type = ''maxConsecutiveWorkDays'', er_employee = ''A'', er_value = VStr ''3''\<rparr>"
  have p: "parseInt (er_value ?r) = Some 3" by (simp add: parseInt_3)
  have z: "wholeDays utcZone fourDayExample 3"
    by (simp add: wholeDays_def Let_def validDate_def utcZone_def fourDayExample_def
          newDate_2024_0 newDate_2024_1 list_all_iff)
  have w: "\<forall>d. newDate (year fourDayExample) (month fourDayExample) 1 - 3 \<le> d
               \<and> d \<le> newDate (year fourDayExample) (month fourDayExample + 1) 0
              \<longrightarrow> isWorking (scheduleData fourDayExample) (er_employee ?r) d
                    = (newDate (year fourDayExample) (month fourDayExample) 1 \<le> d
                       \<and> d \<le> newDate (year fourDayExample) (month fourDayExample) 4)"
    by (simp add: fourDayExample_def isWorking_dayShifts)
  from max_consecutive_conflicts [of ?r 3 utcZone fourDayExample, THEN conjunct2, THEN conjunct2,
         THEN conjunct1] p z w
  have "checkMaxConsecutiveWorkDays utcZone fourDayExample ?r =
          (1, [Highlight (newDate (year fourDayExample) (month fourDayExample) 4)
                 (ConsecutiveDays (er_employee ?r) 4 3)])"
    by blast
  then show ?thesis by (simp add: fourDayExample_def)
qed

section \<open>No 24-hour turnaround\<close>

lemma no24HourStep_eq:
  "no24HourStep ctx e (c, log) day =
     (let d = newDate (year ctx) (month ctx) day
      in if turnaroundOn ctx e d
         then (Suc c, log @ [Highlight d (Turnaround24h e (d - 1) d), Highlight (d - 1) (DayAfterNight e)])
         else (c, log))"
  by (simp add: no24HourStep_def turnaroundOn_def worksShift_def nightClass_def dayClass_def
        newDate_def Let_def)

lemma no24Hour_fold:
  "foldl (no24HourStep ctx e) (c, log) days =
     (let ds = filter (turnaroundOn ctx e) (map (newDate (year ctx) (month ctx)) days)
      in (c + length ds,
          log @ concat (map (\<lambda>d. [Highlight d (Turnaround24h e (d - 1) d),
                                    Highlight (d - 1) (DayAfterNight e)]) ds)))"
proof (induction days arbitrary: c log)
  case Nil
  then show ?case by simp
next
  case (Cons day days)
  show ?case
    by (simp add: no24HourStep_eq Cons.IH Let_def)
qed

lemma class_names_distinct:
  "''weekend-day'' \<noteq> ''weekend-night''" "''day'' \<noteq> ''weekend-night''"
  by simp_all

text \<open>
  C4. \<open>checkNo24HourShift\<close> goes through the days of the target month. The night class
  of the day before and the day class of the day are each read off that day's own
  holiday flag (\<open>nightClass\<close>, \<open>dayClass\<close>). A day on which the employee has the
  night-class shift of the day before and the day-class shift of the day counts one
  conflict, highlights the day and puts the secondary marker on the day before; no other
  day counts or highlights anything. In particular, an employee whose only shifts are a
  \<^verbatim>\<open>weekend-night\<close> on a holiday \<open>p\<close> and a \<^verbatim>\<open>day\<close> on the next day, which is not a
  holiday and lies in the month, gets exactly one conflict, on that second day.
\<close>

theorem no24Hour_conflicts:
  "checkNo24HourShift ctx rule =
     (let e = er_employee rule; ds = filter (turnaroundOn ctx e) (monthDays ctx)
      in (length ds,
          concat (map (\<lambda>d. [Highlight d (Turnaround24h e (d - 1) d),
                            Highlight (d - 1) (DayAfterNight e)]) ds)))
   \<and> (isHoliday p (holidayDates ctx) \<and> \<not> isHoliday (p + 1) (holidayDates ctx)
        \<and> p + 1 \<in> set (monthDays ctx)
        \<and> worksShift ctx (er_employee rule) p ''weekend-night''
        \<and> worksShift ctx (er_employee rule) (p + 1) ''day''
        \<and> (\<forall>d k. worksShift ctx (er_employee rule) d k
                  \<longrightarrow> (d = p \<and> k = ''weekend-night'') \<or> (d = p + 1 \<and> k = ''day''))
      \<longrightarrow> checkNo24HourShift ctx rule =
            (1, [Highlight (p + 1) (Turnaround24h (er_employee rule) p (p + 1)),
                 Highlight p (DayAfterNight (er_employee rule))]))"
proof (intro conjI impI)
  show g: "checkNo24HourShift ctx rule =
     (let e = er_employee rule; ds = filter (turnaroundOn ctx e) (monthDays ctx)
      in (length ds,
          concat (map (\<lambda>d. [Highlight d (Turnaround24h e (d - 1) d),
                            Highlight (d - 1) (DayAfterNight e)]) ds)))"
    by (simp add: checkNo24HourShift_def no24Hour_fold monthDays_def Let_def)
  assume a: "isHoliday p (holidayDates ctx) \<and> \<not> isHoliday (p + 1) (holidayDates ctx)
        \<and> p + 1 \<in> set (monthDays ctx)
        \<and> worksShift ctx (er_employee rule) p ''weekend-night''
        \<and> worksShift ctx (er_employee rule) (p + 1) ''day''
        \<and> (\<forall>d k. worksShift ctx (er_employee rule) d k
                  \<longrightarrow> (d = p \<and> k = ''weekend-night'') \<or> (d = p + 1 \<and> k = ''day''))"
  let ?e = "er_employee rule"
  have t: "turnaroundOn ctx ?e d = (d = p + 1)" for d
  proof
    assume "turnaroundOn ctx ?e d"
    then have "worksShift ctx ?e d (dayClass ctx d)" by (simp add: turnaroundOn_def)
    with a have "(d = p \<and> dayClass ctx d = ''weekend-night'') \<or> d = p + 1" by blast
    moreover have "dayClass ctx d \<noteq> ''weekend-night''"
      using class_names_distinct by (simp add: dayClass_def)
    ultimately show "d = p + 1" by blast
  next
    assume "d = p + 1"
    with a show "turnaroundOn ctx ?e d"
      by (simp add: turnaroundOn_def nightClass_def dayClass_def)
  qed
  have t': "turnaroundOn ctx ?e = (\<lambda>d. d = p + 1)"
    by (rule ext) (rule t)
  from a have "p + 1 \<in> set (monthDays ctx)" by blast
  then have "filter (turnaroundOn ctx ?e) (monthDays ctx) = [p + 1]"
    unfolding t' by (rule filter_eq_singleton [OF distinct_monthDays])
  then show "checkNo24HourShift ctx rule =
            (1, [Highlight (p + 1) (Turnaround24h ?e p (p + 1)), Highlight p (DayAfterNight ?e)])"
    by (simp add: g Let_def)
qed

theorem no24Hour_conflicts_witness:
  "checkNo24HourShift turnaroundExample \<lparr>er_type = ''no24HourShift'', er_employee = ''A'', er_value = VUndefined\<rparr>
     = (1, [Highlight (newDate 2024 0 6) (Turnaround24h ''A'' (newDate 2024 0 5) (newDate 2024 0 6)),
            Highlight (newDate 2024 0 5) (DayAfterNight ''A'')])"
proof -
  let ?r = "\<lparr>er_type = ''no24HourShift'', er_employee = ''A'', er_value = VUndefined\<rparr>"
  let ?p = "newDate 2024 0 5"
  have y: "year turnaroundExample = 2024" "month turnaroundExample = 0"
    by (simp_all add: turnaroundExample_def)
  have h1: "isHoliday ?p (holidayDates turnaroundExample)"
    by (simp add: turnaroundExample_def isHoliday_def)
  have h2: "\<not> isHoliday (?p + 1) (holidayDates turnaroundExample)"
    by (simp add: turnaroundExample_def isHoliday_def)
  have "newDate (year turnaroundExample) (month turnaroundExample) 6 \<in> set (monthDays turnaroundExample)"
    by (rule monthDays_member) (simp_all add: y daysInMonth_2024_0)
  then have h3: "?p + 1 \<in> set (monthDays turnaroundExample)"
    by (simp add: y newDate_2024_0)
  have h4: "worksShift turnaroundExample (er_employee ?r) ?p ''weekend-night''"
    by (simp add: worksShift_def shiftsOn_def turnaroundExample_def newDate_2024_0)
  have h5: "worksShift turnaroundExample (er_employee ?r) (?p + 1) ''day''"
    by (simp add: worksShift_def shiftsOn_def turnaroundExample_def newDate_2024_0)
  have h6: "\<forall>d k. worksShift turnaroundExample (er_employee ?r) d k
                  \<longrightarrow> (d = ?p \<and> k = ''weekend-night'') \<or> (d = ?p + 1 \<and> k = ''day'')"
    by (auto simp: worksShift_def shiftsOn_def turnaroundExample_def newDate_2024_0
             split: if_splits)
  from no24Hour_conflicts [of turnaroundExample ?r ?p, THEN conjunct2] h1 h2 h3 h4 h5 h6
  have "checkNo24HourShift turnaroundExample ?r =
          (1, [Highlight (?p + 1) (Turnaround24h (er_employee ?r) ?p (?p + 1)),
               Highlight ?p (DayAfterNight (er_employee ?r))])"
    by blast
  then show ?thesis by (simp add: newDate_2024_0)
qed

section \<open>The size of a selection and its phases\<close>












section \<open>Rule values that are not numbers\<close>

lemma minStaff_fold:
  "sr_value rule = NaN \<Longrightarrow> foldl (minStaffStep ctx rule) (c, log) days = (c, log)"
  by (induction days) (simp_all add: minStaffStep_def lessThanValue_def Let_def)

lemma balanceExample_conflict:
  assumes e: "er_employee rule = ''A''" and D: "maxDifferenceOf (er_value rule) = 2"
  shows "checkShiftBalance balanceExample rule
           = (1, [Highlight (newDate 2024 0 10) (Imbalance ''A'' 10 0 10 2)])"
  unfolding checkShiftBalance_eq e D dc_balanceExample nc_balanceExample
  by (simp add: last_day_balanceExample) (simp add: balanceExample_def)

lemma parseInt_abc: "parseInt (VStr ''abc'') = None"
  by (simp add: parseInt_def parseIntString_def isWhiteSpace_def isDigit_def)

text \<open>
  C6, as amended. With a value that \<^verbatim>\<open>parseInt\<close> reads as \<^verbatim>\<open>NaN\<close>,
  \<open>checkMaxConsecutiveWorkDays\<close> returns 0 and reports nothing, on every schedule; with
  a value that the comparison \<^verbatim>\<open>staffCount < rule.value\<close> converts to \<^verbatim>\<open>NaN\<close>,
  \<open>checkMinStaff\<close> returns 0 and reports nothing, on every schedule. The balance rule
  is not disabled by such a value: \<^verbatim>\<open>parseInt(rule.value, 10) || 2\<close> falls back to the
  default maximum difference 2, and \<open>checkShiftBalance\<close> returns what it returns for a
  rule whose value is 2.
\<close>

theorem non_numeric_rule_values:
  "(parseInt (er_value rule) = None \<longrightarrow> checkMaxConsecutiveWorkDays zone ctx rule = (0, []))
   \<and> (sr_value srule = NaN \<longrightarrow> checkMinStaff ctx srule = (0, []))
   \<and> (parseInt (er_value rule) = None \<longrightarrow>
        checkShiftBalance ctx rule = checkShiftBalance ctx (rule\<lparr>er_value := VNum 2\<rparr>))"
proof (intro conjI impI)
  assume "parseInt (er_value rule) = None"
  then show "checkMaxConsecutiveWorkDays zone ctx rule = (0, [])"
    by (simp add: checkMaxConsecutiveWorkDays_def)
next
  assume "sr_value srule = NaN"
  then show "checkMinStaff ctx srule = (0, [])"
    by (simp add: checkMinStaff_def minStaff_fold)
next
  assume p: "parseInt (er_value rule) = None"
  have 1: "maxDifferenceOf (er_value rule) = 2" by (simp add: maxDifferenceOf_def p)
  have 2: "maxDifferenceOf (er_value (rule\<lparr>er_value := VNum 2\<rparr>)) = 2"
    by (simp add: maxDifferenceOf_def parseInt_def)
  have 3: "er_employee (rule\<lparr>er_value := VNum 2\<rparr>) = er_employee rule" by simp
  show "checkShiftBalance ctx rule = checkShiftBalance ctx (rule\<lparr>er_value := VNum 2\<rparr>)"
    unfolding checkShiftBalance_eq 1 2 3 by (rule refl)
qed

theorem non_numeric_rule_values_witness:
  "checkMaxConsecutiveWorkDays utcZone fourDayExample
       \<lparr>er_type = ''maxConsecutiveWorkDays'', er_employee = ''A'', er_value = VStr ''abc''\<rparr> = (0, [])
   \<and> checkMinStaff fourDayExample \<lparr>sr_type = ''minStaff'', sr_shift = ''day'', sr_value = NaN\<rparr> = (0, [])
   \<and> checkShiftBalance balanceExample
         \<lparr>er_type = ''balanceShifts'', er_employee = ''A'', er_value = VStr ''abc''\<rparr>
       = checkShiftBalance balanceExample
           \<lparr>er_type = ''balanceShifts'', er_employee = ''A'', er_value = VNum 2\<rparr>"
  using non_numeric_rule_values
          [where rule = "\<lparr>er_type = ''maxConsecutiveWorkDays'', er_employee = ''A'', er_value = VStr ''abc''\<rparr>"
             and zone = utcZone and ctx = fourDayExample
             and srule = "\<lparr>sr_type = ''minStaff'', sr_shift = ''day'', sr_value = NaN\<rparr>"]
        non_numeric_rule_values
          [where rule = "\<lparr>er_type = ''balanceShifts'', er_employee = ''A'', er_value = VStr ''abc''\<rparr>"
             and zone = utcZone and ctx = balanceExample
             and srule = "\<lparr>sr_type = ''minStaff'', sr_shift = ''day'', sr_value = NaN\<rparr>"]
  by (simp add: parseInt_abc)

text \<open>
  The claim as stated has the balance handler return 0 for every schedule when the value
  is not a number. With the value \<^verbatim>\<open>'abc'\<close> and an employee who has ten day shifts and
  no night shift it returns 1.
\<close>

theorem balance_default_counterexample:
  "parseInt (VStr ''abc'') = None
   \<and> checkShiftBalance balanceExample
         \<lparr>er_type = ''balanceShifts'', er_employee = ''A'', er_value = VStr ''abc''\<rparr>
       = (1, [Highlight (newDate 2024 0 10) (Imbalance ''A'' 10 0 10 2)])"
  by (simp add: parseInt_abc balanceExample_conflict maxDifferenceOf_def)

section \<open>The balance rule\<close>

lemma balance_threshold: "balanceOutcome ctx rule (maxDifferenceOf (er_value rule))"
proof -
  define e where "e = er_employee rule"
  define D where "D = maxDifferenceOf (er_value rule)"
  define dc where "dc = classCount ctx e [''day'', ''weekend-day'']"
  define nc where "nc = classCount ctx e [''night'', ''weekend-night'']"
  define dom where "dom = (if dc > nc then [''day'', ''weekend-day''] else [''night'', ''weekend-night''])"
  define days where "days = [1..daysInMonth (year ctx) (month ctx)]"
  note defs = e_def D_def dc_def nc_def dom_def days_def
  have eq: "checkShiftBalance ctx rule =
     (if \<bar>int dc - int nc\<bar> > D \<and> (dc > 0 \<or> nc > 0)
      then (1, case find (hasDominantShift ctx e dom) (rev days) of
                None \<Rightarrow> []
              | Some day \<Rightarrow>
                  [Highlight (newDate (year ctx) (month ctx) day)
                     (Imbalance e dc nc (nat \<bar>int dc - int nc\<bar>) D)])
      else (0, []))"
    unfolding defs by (rule checkShiftBalance_eq)
  have "if \<bar>int dc - int nc\<bar> > D \<and> (dc > 0 \<or> nc > 0)
        then \<exists>last\<in>set (monthDays ctx).
              hasClassOn ctx e dom last
              \<and> (\<forall>d\<in>set (monthDays ctx). last < d \<longrightarrow> \<not> hasClassOn ctx e dom d)
              \<and> checkShiftBalance ctx rule
                  = (1, [Highlight last (Imbalance e dc nc (nat \<bar>int dc - int nc\<bar>) D)])
        else checkShiftBalance ctx rule = (0, [])"
  proof (cases "\<bar>int dc - int nc\<bar> > D \<and> (dc > 0 \<or> nc > 0)")
    case False
    show ?thesis by (subst if_not_P [OF False]) (simp only: eq if_not_P [OF False])
  next
    case True
    have "0 < classCount ctx e dom"
    proof (cases "dc > nc")
      case True
      then show ?thesis by (simp add: dom_def dc_def)
    next
      case False
      with \<open>\<bar>int dc - int nc\<bar> > D \<and> (dc > 0 \<or> nc > 0)\<close> have "0 < nc" by auto
      with False show ?thesis by (simp add: dom_def nc_def)
    qed
    then have "\<exists>d\<in>set (monthDays ctx). hasClassOn ctx e dom d" by (rule classCount_pos)
    from last_dominant_day [OF this]
    obtain day where f: "find (hasDominantShift ctx e dom) (rev days) = Some day"
      and m: "newDate (year ctx) (month ctx) day \<in> set (monthDays ctx)"
      and h: "hasClassOn ctx e dom (newDate (year ctx) (month ctx) day)"
      and l: "\<forall>d\<in>set (monthDays ctx). newDate (year ctx) (month ctx) day < d
                \<longrightarrow> \<not> hasClassOn ctx e dom d"
      unfolding days_def by blast
    have "checkShiftBalance ctx rule
            = (1, [Highlight (newDate (year ctx) (month ctx) day)
                     (Imbalance e dc nc (nat \<bar>int dc - int nc\<bar>) D)])"
      by (simp only: eq if_P [OF True] f option.case)
    with m h l have "\<exists>last\<in>set (monthDays ctx).
              hasClassOn ctx e dom last
              \<and> (\<forall>d\<in>set (monthDays ctx). last < d \<longrightarrow> \<not> hasClassOn ctx e dom d)
              \<and> checkShiftBalance ctx rule
                  = (1, [Highlight last (Imbalance e dc nc (nat \<bar>int dc - int nc\<bar>) D)])"
      by blast
    then show ?thesis by (subst if_P [OF True])
  qed
  then show ?thesis unfolding balanceOutcome_def Let_def defs .
qed


lemma monthDays_threeToOneExample: "monthDays threeToOneExample = map (\<lambda>k. 19722 + k) [1..31]"
  by (simp add: monthDays_def threeToOneExample_def daysInMonth_2024_0 newDate_2024_0)

lemma shiftsOn_threeToOneExample:
  "shiftsOn (scheduleData threeToOneExample) d =
     (if 19723 \<le> d \<and> d \<le> 19725 then [\<lparr>employee = ''A'', shift = ''day''\<rparr>]
      else if d = 19726 then [\<lparr>employee = ''A'', shift = ''night''\<rparr>] else [])"
  by (simp add: threeToOneExample_def dayShiftsFromTo_def shiftsOn_def newDate_2024_0)

lemma dc_threeToOneExample: "classCount threeToOneExample ''A'' [''day'', ''weekend-day''] = 3"
  unfolding classCount_def monthDays_threeToOneExample shiftsOn_threeToOneExample
  by (simp add: upto_rec1)

lemma nc_threeToOneExample: "classCount threeToOneExample ''A'' [''night'', ''weekend-night''] = 1"
  unfolding classCount_def monthDays_threeToOneExample shiftsOn_threeToOneExample
  by (simp add: upto_rec1)

lemma zero_threshold:
  "checkShiftBalance threeToOneExample
     \<lparr>er_type = t, er_employee = ''A'', er_value = VNum 0\<rparr> = (0, [])"
  unfolding checkShiftBalance_eq
  by (simp add: dc_threeToOneExample nc_threeToOneExample maxDifferenceOf_def parseInt_def)

text \<open>
  C7. \<open>checkShiftBalance\<close> counts, over the days of the target month, the employee's
  day-class assignments (\<^verbatim>\<open>day\<close> and \<^verbatim>\<open>weekend-day\<close>) and night-class assignments
  (\<^verbatim>\<open>night\<close> and \<^verbatim>\<open>weekend-night\<close>). With a maximum difference \<open>D\<close>, it is to return
  exactly one conflict, whatever the size of the difference, when the two counts
  differ by more than \<open>D\<close> and one of them is not zero, with its one finding on the
  latest day of the month on which the employee has a shift of the dominant class;
  \<open>balanceOutcome\<close> says so, and says that there is no conflict otherwise.

  The handler does so for every configured maximum difference \<open>N\<close> other than 0 (a
  number below \<open>2^53\<close> in size, which \<^verbatim>\<open>parseInt\<close> reads exactly), and with the default
  \<open>D = 2\<close> when the value holds no number. A configured 0 is lost in
  \<^verbatim>\<open>parseInt(rule.value, 10) || 2\<close>, where 0 is falsy: the handler works with 2. An
  employee with three day shifts and one night shift is 2 apart, which is more than
  the configured 0, and the handler returns no conflict.
\<close>

theorem shift_balance_conflict:
  "(parseInt (er_value rule) = Some N \<and> N \<noteq> 0 \<and> \<bar>N\<bar> < 2 ^ 53 \<longrightarrow> balanceOutcome ctx rule N)
   \<and> (parseInt (er_value rule) = None \<longrightarrow> balanceOutcome ctx rule 2)
   \<and> parseInt (VNum 0) = Some 0
   \<and> classCount threeToOneExample ''A'' [''day'', ''weekend-day''] = 3
   \<and> classCount threeToOneExample ''A'' [''night'', ''weekend-night''] = 1
   \<and> checkShiftBalance threeToOneExample
        \<lparr>er_type = ''balanceShifts'', er_employee = ''A'', er_value = VNum 0\<rparr> = (0, [])
   \<and> \<not> balanceOutcome threeToOneExample
          \<lparr>er_type = ''balanceShifts'', er_employee = ''A'', er_value = VNum 0\<rparr> 0"
proof (intro conjI impI)
  assume "parseInt (er_value rule) = Some N \<and> N \<noteq> 0 \<and> \<bar>N\<bar> < 2 ^ 53"
  then have "maxDifferenceOf (er_value rule) = N" by (simp add: maxDifferenceOf_def)
  with balance_threshold [of ctx rule] show "balanceOutcome ctx rule N" by simp
next
  assume "parseInt (er_value rule) = None"
  then have "maxDifferenceOf (er_value rule) = 2" by (simp add: maxDifferenceOf_def)
  with balance_threshold [of ctx rule] show "balanceOutcome ctx rule 2" by simp
next
  show "parseInt (VNum 0) = Some 0" by (simp add: parseInt_def)
next
  show "classCount threeToOneExample ''A'' [''day'', ''weekend-day''] = 3"
    by (rule dc_threeToOneExample)
next
  show "classCount threeToOneExample ''A'' [''night'', ''weekend-night''] = 1"
    by (rule nc_threeToOneExample)
next
  show "checkShiftBalance threeToOneExample
        \<lparr>er_type = ''balanceShifts'', er_employee = ''A'', er_value = VNum 0\<rparr> = (0, [])"
    by (rule zero_threshold)
next
  show "\<not> balanceOutcome threeToOneExample
          \<lparr>er_type = ''balanceShifts'', er_employee = ''A'', er_value = VNum 0\<rparr> 0"
    unfolding balanceOutcome_def Let_def
    by (simp add: dc_threeToOneExample nc_threeToOneExample zero_threshold)
qed

text \<open>
  The example of the specification: ten day shifts and no night shift, with a maximum
  difference of 2, give one conflict, on the tenth day.
\<close>

theorem shift_balance_conflict_witness:
  "checkShiftBalance balanceExample \<lparr>er_type = ''balanceShifts'', er_employee = ''A'', er_value = VNum 2\<rparr>
     = (1, [Highlight (newDate 2024 0 10) (Imbalance ''A'' 10 0 10 2)])"
proof -
  let ?r = "\<lparr>er_type = ''balanceShifts'', er_employee = ''A'', er_value = VNum 2\<rparr>"
  have p: "parseInt (er_value ?r) = Some 2 \<and> (2::int) \<noteq> 0 \<and> \<bar>2::int\<bar> < 2 ^ 53"
    by (simp add: parseInt_def)
  have e: "er_employee ?r = ''A''" by simp
  from shift_balance_conflict [of ?r 2 balanceExample, THEN conjunct1] p
  have "balanceOutcome balanceExample ?r 2" by blast
  then obtain last where m: "last \<in> set (monthDays balanceExample)"
    and h: "hasClassOn balanceExample ''A'' [''day'', ''weekend-day''] last"
    and l: "\<forall>d\<in>set (monthDays balanceExample). last < d
              \<longrightarrow> \<not> hasClassOn balanceExample ''A'' [''day'', ''weekend-day''] d"
    and c: "checkShiftBalance balanceExample ?r = (1, [Highlight last (Imbalance ''A'' 10 0 10 2)])"
    unfolding balanceOutcome_def Let_def e dc_balanceExample nc_balanceExample by auto
  have "19732 \<in> set (monthDays balanceExample)"
    by (simp add: monthDays_balanceExample image_iff)
  with l have "\<not> last < 19732" by (auto simp: hasClassOn_balanceExample)
  with h have "last = newDate 2024 0 10"
    by (simp add: hasClassOn_balanceExample newDate_2024_0)
  with c show ?thesis by simp
qed

section \<open>The order of the balanced strategy\<close>

















section \<open>Consecutive work days before a target date\<close>

lemma countBack_run:
  "workedRun sd e d n \<Longrightarrow> countBack k sd e d c = c + min n k"
proof (induction k arbitrary: d c n)
  case 0
  then show ?case by simp
next
  case (Suc k)
  show ?case
  proof (cases n)
    case 0
    with Suc.prems show ?thesis by simp
  next
    case (Suc m)
    with Suc.prems have w: "isWorking sd e d" and r: "workedRun sd e (d - 1) m" by simp_all
    from Suc.IH [OF r] w Suc show ?thesis by simp
  qed
qed

lemma isWorking_cong: "sd d = sd' d \<Longrightarrow> isWorking sd e d = isWorking sd' e d"
  by (simp add: isWorking_def shiftsOn_def)

lemma countBack_cong:
  "(\<And>d'. d' \<le> d \<Longrightarrow> sd d' = sd' d') \<Longrightarrow> countBack k sd e d c = countBack k sd' e d c"
proof (induction k arbitrary: d c)
  case 0
  then show ?case by simp
next
  case (Suc k)
  have "isWorking sd e d = isWorking sd' e d" by (rule isWorking_cong) (simp add: Suc.prems)
  moreover have "countBack k sd e (d - 1) (Suc c) = countBack k sd' e (d - 1) (Suc c)"
    by (rule Suc.IH) (simp add: Suc.prems)
  ultimately show ?case by simp
qed

lemma localDay_east:
  "0 \<le> utcOffset zone day \<Longrightarrow> utcOffset zone day < msPerDay \<Longrightarrow>
     localDay zone (DateOnlyString day) = day"
  by (simp add: localDay_def msPerDay_def)

text \<open>
  C9, as amended. \<open>calculateConsecutiveWorkDays\<close> starts on the day before the local
  day of \<^verbatim>\<open>new Date(targetDate)\<close> and walks backward; it stops at the first day without
  a worked assignment, or after 14 days. When the run of worked days that ends on the
  day before has length \<open>n\<close>, the result is \<open>min n 14\<close>. Two schedules that agree on
  every earlier day give the same result: the assignment on that day, or on any later
  date, never affects it. The local day of \<^verbatim>\<open>new Date(targetDate)\<close> is the target date
  when the target is given as a \<^verbatim>\<open>Date\<close> of that day, and also when it is given as the
  string \<^verbatim>\<open>YYYY-MM-DD\<close> in a time zone at or east of UTC. (West of UTC the string is read
  as an evening of the day before; the statement does not cover that case.)
\<close>

theorem consecutive_days_before_target:
  "(workedRun sd e (localDay zone targetDate - 1) n
      \<longrightarrow> calculateConsecutiveWorkDays zone e targetDate sd = min n 14)
   \<and> ((\<forall>d. d < localDay zone targetDate \<longrightarrow> sd d = sd' d)
        \<longrightarrow> calculateConsecutiveWorkDays zone e targetDate sd
              = calculateConsecutiveWorkDays zone e targetDate sd')
   \<and> localDay zone (LocalDate day) = day
   \<and> (0 \<le> utcOffset zone day \<and> utcOffset zone day < msPerDay
        \<longrightarrow> localDay zone (DateOnlyString day) = day)"
proof (intro conjI impI)
  assume "workedRun sd e (localDay zone targetDate - 1) n"
  then show "calculateConsecutiveWorkDays zone e targetDate sd = min n 14"
    by (simp add: calculateConsecutiveWorkDays_def countBack_run)
next
  assume a: "\<forall>d. d < localDay zone targetDate \<longrightarrow> sd d = sd' d"
  show "calculateConsecutiveWorkDays zone e targetDate sd
          = calculateConsecutiveWorkDays zone e targetDate sd'"
    unfolding calculateConsecutiveWorkDays_def
    by (rule countBack_cong) (simp add: a)
next
  show "localDay zone (LocalDate day) = day" by (simp add: localDay_def)
next
  assume "0 \<le> utcOffset zone day \<and> utcOffset zone day < msPerDay"
  then show "localDay zone (DateOnlyString day) = day" by (simp add: localDay_east)
qed

theorem consecutive_days_before_target_witness:
  "workedRun (dayShiftsFromTo ''A'' 97 99) ''A'' (100 - 1) 3
   \<and> calculateConsecutiveWorkDays utcZone ''A'' (LocalDate 100) (dayShiftsFromTo ''A'' 97 99) = 3
   \<and> calculateConsecutiveWorkDays utcZone ''A'' (LocalDate 100) (dayShiftsFromTo ''A'' 97 99)
       = calculateConsecutiveWorkDays utcZone ''A'' (LocalDate 100) (dayShiftsFromTo ''A'' 97 120)
   \<and> localDay utcZone (DateOnlyString 100) = 100"
proof -
  have r: "workedRun (dayShiftsFromTo ''A'' 97 99) ''A'' (100 - 1) 3"
    by (simp add: eval_nat_numeral isWorking_dayShifts)
  have a: "\<forall>d. d < 100 \<longrightarrow> dayShiftsFromTo ''A'' 97 99 d = dayShiftsFromTo ''A'' 97 120 d"
    by (simp add: dayShiftsFromTo_def)
  have l: "localDay utcZone (LocalDate 100) = 100" by (simp add: localDay_def)
  have o: "0 \<le> utcOffset utcZone 100 \<and> utcOffset utcZone 100 < msPerDay"
    by (simp add: utcZone_def msPerDay_def)
  from r a o consecutive_days_before_target
         [where sd = "dayShiftsFromTo ''A'' 97 99" and e = "''A''" and zone = utcZone
            and targetDate = "LocalDate 100" and n = 3 and sd' = "dayShiftsFromTo ''A'' 97 120"
            and day = 100]
  show ?thesis unfolding l by simp
qed

text \<open>
  The claim as stated has the function count the whole run. On a schedule with fifteen
  worked days before the target date the run has length 15 and the function returns 14.
\<close>

theorem long_run_counterexample:
  "workedRun (dayShiftsFromTo ''A'' 85 99) ''A'' (100 - 1) 15
   \<and> calculateConsecutiveWorkDays utcZone ''A'' (LocalDate 100) (dayShiftsFromTo ''A'' 85 99) = 14"
  by (simp add: calculateConsecutiveWorkDays_def localDay_def eval_nat_numeral isWorking_dayShifts)

text \<open>
  Five hours west of UTC the string \<^verbatim>\<open>2024-01-15\<close> is read as 19:00 on the 14th. With
  shifts on the 12th, 13th and 14th, the run that ends on the day before the 15th has
  length 3, and the function, which starts on the 13th, returns 2.
\<close>

lemma date_only_string_west_of_utc:
  "localDay newYork (DateOnlyString (newDate 2024 0 15)) = newDate 2024 0 14
   \<and> workedRun (dayShiftsFromTo ''A'' (newDate 2024 0 12) (newDate 2024 0 14)) ''A''
         (newDate 2024 0 15 - 1) 3
   \<and> calculateConsecutiveWorkDays newYork ''A'' (DateOnlyString (newDate 2024 0 15))
         (dayShiftsFromTo ''A'' (newDate 2024 0 12) (newDate 2024 0 14)) = 2"
  by (simp add: calculateConsecutiveWorkDays_def localDay_def newYork_def msPerDay_def
        newDate_2024_0 eval_nat_numeral isWorking_dayShifts)

section \<open>A pool no larger than the required count\<close>

text \<open>
  C10. When the pool of available employees is no longer than the required count, the
  three selection functions (\<open>selectEmployeesWithFairness\<close> of both revisions and
  \<open>getBestEmployeeSelection\<close> of the earlier one) return the pool itself, in its own
  order: no strategy ranks it and no under-scheduled phase runs.
\<close>

theorem small_pool_returned_unchanged:
  "length availableEmployees \<le> requiredCount \<Longrightarrow>
     selectEmployeesWithFairness availableEmployees shiftType requiredCount stats allEmployees
         strategy date = availableEmployees
     \<and> selectEmployeesWithFairness_rev1 lc availableEmployees shiftType requiredCount stats
         allEmployees strategy date = availableEmployees
     \<and> getBestEmployeeSelection_rev1 lc availableEmployees shiftType requiredCount stats
         strategy date = availableEmployees"
  by (simp add: selectEmployeesWithFairness_def selectEmployeesWithFairness_rev1_def
        getBestEmployeeSelection_rev1_def)

theorem small_pool_returned_unchanged_witness:
  "length [''Chen'', ''Avery''] \<le> (2::nat)
   \<and> selectEmployeesWithFairness [''Chen'', ''Avery''] ''day'' 2 [] [''Avery'', ''Chen'']
        ''rotate'' NoDate = [''Chen'', ''Avery'']
   \<and> selectEmployeesWithFairness_rev1 (\<lambda>a b. 0) [''Chen'', ''Avery''] ''day'' 2 []
        [''Avery'', ''Chen''] ''rotate'' NoDate = [''Chen'', ''Avery'']
   \<and> getBestEmployeeSelection_rev1 (\<lambda>a b. 0) [''Chen'', ''Avery''] ''day'' 2 [] ''rotate'' NoDate
        = [''Chen'', ''Avery'']"
proof -
  have h: "length [''Chen'', ''Avery''] \<le> (2::nat)" by simp
  show ?thesis
    using h small_pool_returned_unchanged [OF h, of "''day''" "[]" "[''Avery'', ''Chen'']"
        "''rotate''" NoDate "\<lambda>a b. 0"]
    by simp
qed

end
